theory Spec2Isabelle
  imports Complex_Main
begin

section \<open>JavaScript text primitives\<close>

text \<open>
  A JavaScript string is a sequence of code units. The model writes a string as a
  \<open>char list\<close> and covers the code units below U+0100, one \<open>char\<close> each.
  \<open>isWhiteSpace\<close> lists the white space and line terminator code units of that range,
  which is what \<open>String.prototype.trim\<close> strips; \<open>toLowerCase\<close> maps the upper case
  letters of that range (A-Z and U+00C0..U+00DE without U+00D7).
\<close>

definition isWhiteSpace :: "char \<Rightarrow> bool" where
  "isWhiteSpace c = (of_char c \<in> {9, 10, 11, 12, 13, 32, 160 :: nat})"

definition trim :: "string \<Rightarrow> string" where
  "trim s = rev (dropWhile isWhiteSpace (rev (dropWhile isWhiteSpace s)))"

definition toLowerChar :: "char \<Rightarrow> char" where
  "toLowerChar c =
     (let n = of_char c :: nat
      in if (65 \<le> n \<and> n \<le> 90) \<or> (192 \<le> n \<and> n \<le> 222 \<and> n \<noteq> 215)
         then char_of (n + 32) else c)"

definition toLowerCase :: "string \<Rightarrow> string" where
  "toLowerCase s = map toLowerChar s"

text \<open>\<open>Number.prototype.toString(36)\<close> on an integer, and the hex rendering of a byte buffer.\<close>

definition digitChar :: "int \<Rightarrow> char" where
  "digitChar d = (if d < 10 then char_of (48 + d) else char_of (87 + d))"

function digits36 :: "int \<Rightarrow> string" where
  "digits36 n = (if n < 36 then [digitChar n] else digits36 (n div 36) @ [digitChar (n mod 36)])"
  by pat_completeness auto
termination
  by (relation "measure nat") auto

declare digits36.simps [simp del]

definition toString36 :: "int \<Rightarrow> string" where
  "toString36 n = (if n < 0 then CHR ''-'' # digits36 (- n) else digits36 n)"

definition hexByte :: "nat \<Rightarrow> string" where
  "hexByte b = [digitChar (int (b div 16 mod 16)), digitChar (int (b mod 16))]"

definition toHex :: "nat list \<Rightarrow> string" where
  "toHex bs = concat (map hexByte bs)"

text \<open>\<open>String(n)\<close> on an integer, and \<open>Array.prototype.join\<close>.\<close>

function digits10 :: "int \<Rightarrow> string" where
  "digits10 n = (if n < 10 then [digitChar n] else digits10 (n div 10) @ [digitChar (n mod 10)])"
  by pat_completeness auto
termination
  by (relation "measure nat") auto

declare digits10.simps [simp del]

definition showInt :: "int \<Rightarrow> string" where
  "showInt n = (if n < 0 then CHR ''-'' # digits10 (- n) else digits10 n)"

fun join :: "string \<Rightarrow> string list \<Rightarrow> string" where
  "join sep [] = []"
| "join sep [x] = x"
| "join sep (x # y # ys) = x @ sep @ join sep (y # ys)"

section \<open>Session store (server/cookie-session-storage.ts)\<close>

text \<open>
  The two configuration payloads, as the TypeScript interfaces declare them. A stored
  sub-record is the payload spread together with \<open>expiresAt\<close> (epoch milliseconds);
  reading it back strips \<open>expiresAt\<close> again, so the model keeps the two parts side by side.
\<close>

record SnykConfig =
  snykApiToken :: string
  groupId :: "string option"
  orgId :: "string option"
  apiVersion :: "string option"

record LLMConfig =
  provider :: string
  model :: string
  apiKey :: string
  baseUrl :: "string option"

record 'a Stored =
  config :: 'a
  expiresAt :: int

record CookieSession =
  id_session :: string
  snykConfig :: "SnykConfig Stored option"
  llmConfig :: "LLMConfig Stored option"
  createdAt :: int
  lastAccessed :: int

type_synonym sessions = "string \<rightharpoonup> CookieSession"

text \<open>
  What a call does to the response: it sets the session cookie or clears it. The request is
  read only for the value of the session cookie (\<open>None\<close> when the request carries none).
  Every operation takes the clock reading \<open>now\<close> (one \<open>Date.now()\<close> value per call) and
  the sixteen bytes \<open>randomBytes(16)\<close> would return if a session id has to be generated.
\<close>

datatype CookieOp = SetCookie string | ClearCookie

text \<open>A thrown exception, with its \<open>message\<close>.\<close>

datatype Exn = TypeError string | SyntaxError string | ZodError string | Error string

definition errorMessage :: "Exn \<Rightarrow> string" where
  "errorMessage e = (case e of TypeError m \<Rightarrow> m | SyntaxError m \<Rightarrow> m | ZodError m \<Rightarrow> m | Error m \<Rightarrow> m)"

definition CLEANUP_INTERVAL :: int where
  "CLEANUP_INTERVAL = 5 * 60 * 1000"

definition SESSION_TIMEOUT :: int where
  "SESSION_TIMEOUT = 30 * 60 * 1000"

definition generateSessionId :: "int \<Rightarrow> nat list \<Rightarrow> string" where
  "generateSessionId now rnd = toString36 now @ ''-'' @ toHex rnd"

definition createSession :: "int \<Rightarrow> nat list \<Rightarrow> sessions \<Rightarrow> string \<times> sessions \<times> CookieOp list" where
  "createSession now rnd ss =
     (let sessionId = generateSessionId now rnd;
          session = \<lparr>id_session = sessionId, snykConfig = None, llmConfig = None,
                     createdAt = now, lastAccessed = now\<rparr>
      in (sessionId, ss(sessionId \<mapsto> session), [SetCookie sessionId]))"

definition getOrCreateSessionId ::
    "int \<Rightarrow> nat list \<Rightarrow> string option \<Rightarrow> sessions \<Rightarrow> string \<times> sessions \<times> CookieOp list" where
  "getOrCreateSessionId now rnd cookie ss =
     (case (case cookie of
              None \<Rightarrow> None
            | Some sessionId \<Rightarrow>
                if sessionId \<noteq> [] then map_option (Pair sessionId) (ss sessionId) else None) of
        Some (sessionId, session) \<Rightarrow>
          if now - lastAccessed session > SESSION_TIMEOUT
          then createSession now rnd (ss(sessionId := None))
          else (sessionId, ss(sessionId \<mapsto> session\<lparr>lastAccessed := now\<rparr>), [])
      | None \<Rightarrow> createSession now rnd ss)"

definition setApiConfiguration ::
    "int \<Rightarrow> nat list \<Rightarrow> string option \<Rightarrow> SnykConfig \<Rightarrow> int \<Rightarrow> sessions
      \<Rightarrow> Exn + string \<times> sessions \<times> CookieOp list" where
  "setApiConfiguration now rnd cookie cfg expirationMinutes ss =
     (case getOrCreateSessionId now rnd cookie ss of
        (sessionId, ss1, out) \<Rightarrow>
          (case ss1 sessionId of
             None \<Rightarrow> Inl (TypeError ''Cannot set properties of undefined'')
           | Some session \<Rightarrow>
               Inr (sessionId,
                    ss1(sessionId \<mapsto> session\<lparr>snykConfig :=
                          Some \<lparr>config = cfg, expiresAt = now + expirationMinutes * 60 * 1000\<rparr>\<rparr>),
                    out)))"

definition getApiConfiguration ::
    "int \<Rightarrow> nat list \<Rightarrow> string option \<Rightarrow> sessions
      \<Rightarrow> (SnykConfig \<times> string) option \<times> sessions \<times> CookieOp list" where
  "getApiConfiguration now rnd cookie ss =
     (case getOrCreateSessionId now rnd cookie ss of
        (sessionId, ss1, out) \<Rightarrow>
          (case ss1 sessionId of
             None \<Rightarrow> (None, ss1, out)
           | Some session \<Rightarrow>
               (case snykConfig session of
                  None \<Rightarrow> (None, ss1, out)
                | Some stored \<Rightarrow>
                    if now > expiresAt stored
                    then (None, ss1(sessionId \<mapsto> session\<lparr>snykConfig := None\<rparr>), out)
                    else (Some (config stored, sessionId), ss1, out))))"

definition getTimeUntilExpiration ::
    "int \<Rightarrow> nat list \<Rightarrow> string option \<Rightarrow> sessions \<Rightarrow> int option \<times> sessions \<times> CookieOp list" where
  "getTimeUntilExpiration now rnd cookie ss =
     (case getOrCreateSessionId now rnd cookie ss of
        (sessionId, ss1, out) \<Rightarrow>
          (case ss1 sessionId of
             None \<Rightarrow> (None, ss1, out)
           | Some session \<Rightarrow>
               (case snykConfig session of
                  None \<Rightarrow> (None, ss1, out)
                | Some stored \<Rightarrow>
                    (Some (max 0 ((expiresAt stored - now) div (60 * 1000))), ss1, out))))"

definition clearConfiguration ::
    "int \<Rightarrow> nat list \<Rightarrow> string option \<Rightarrow> sessions \<Rightarrow> sessions \<times> CookieOp list" where
  "clearConfiguration now rnd cookie ss =
     (case getOrCreateSessionId now rnd cookie ss of
        (sessionId, ss1, out) \<Rightarrow>
          (let ss2 = (case ss1 sessionId of
                        None \<Rightarrow> ss1
                      | Some session \<Rightarrow> ss1(sessionId \<mapsto> session\<lparr>snykConfig := None\<rparr>))
           in (ss2(sessionId := None), out @ [ClearCookie])))"

definition extendConfiguration ::
    "int \<Rightarrow> nat list \<Rightarrow> string option \<Rightarrow> int \<Rightarrow> sessions \<Rightarrow> bool \<times> sessions \<times> CookieOp list" where
  "extendConfiguration now rnd cookie additionalMinutes ss =
     (case getOrCreateSessionId now rnd cookie ss of
        (sessionId, ss1, out) \<Rightarrow>
          (case ss1 sessionId of
             None \<Rightarrow> (False, ss1, out)
           | Some session \<Rightarrow>
               (case snykConfig session of
                  None \<Rightarrow> (False, ss1, out)
                | Some stored \<Rightarrow>
                    if now > expiresAt stored then (False, ss1, out)
                    else (True,
                          ss1(sessionId \<mapsto> session\<lparr>snykConfig :=
                                Some (stored\<lparr>expiresAt := now + additionalMinutes * 60 * 1000\<rparr>)\<rparr>),
                          out))))"

definition setLlmConfiguration ::
    "int \<Rightarrow> nat list \<Rightarrow> string option \<Rightarrow> LLMConfig \<Rightarrow> int \<Rightarrow> sessions
      \<Rightarrow> Exn + string \<times> sessions \<times> CookieOp list" where
  "setLlmConfiguration now rnd cookie cfg expirationMinutes ss =
     (case getOrCreateSessionId now rnd cookie ss of
        (sessionId, ss1, out) \<Rightarrow>
          (case ss1 sessionId of
             None \<Rightarrow> Inl (TypeError ''Cannot set properties of undefined'')
           | Some session \<Rightarrow>
               Inr (sessionId,
                    ss1(sessionId \<mapsto> session\<lparr>llmConfig :=
                          Some \<lparr>config = cfg, expiresAt = now + expirationMinutes * 60 * 1000\<rparr>\<rparr>),
                    out)))"

definition getLlmConfiguration ::
    "int \<Rightarrow> nat list \<Rightarrow> string option \<Rightarrow> sessions
      \<Rightarrow> (LLMConfig \<times> string) option \<times> sessions \<times> CookieOp list" where
  "getLlmConfiguration now rnd cookie ss =
     (case getOrCreateSessionId now rnd cookie ss of
        (sessionId, ss1, out) \<Rightarrow>
          (case ss1 sessionId of
             None \<Rightarrow> (None, ss1, out)
           | Some session \<Rightarrow>
               (case llmConfig session of
                  None \<Rightarrow> (None, ss1, out)
                | Some stored \<Rightarrow>
                    if now > expiresAt stored
                    then (None, ss1(sessionId \<mapsto> session\<lparr>llmConfig := None\<rparr>), out)
                    else (Some (config stored, sessionId), ss1, out))))"

definition clearLlmConfiguration ::
    "int \<Rightarrow> nat list \<Rightarrow> string option \<Rightarrow> sessions \<Rightarrow> sessions \<times> CookieOp list" where
  "clearLlmConfiguration now rnd cookie ss =
     (case getOrCreateSessionId now rnd cookie ss of
        (sessionId, ss1, out) \<Rightarrow>
          (case ss1 sessionId of
             None \<Rightarrow> (ss1, out)
           | Some session \<Rightarrow> (ss1(sessionId \<mapsto> session\<lparr>llmConfig := None\<rparr>), out)))"

definition cleanupExpiredSessions :: "int \<Rightarrow> sessions \<Rightarrow> sessions" where
  "cleanupExpiredSessions now ss =
     (\<lambda>sessionId. case ss sessionId of
        None \<Rightarrow> None
      | Some session \<Rightarrow> if now - lastAccessed session > SESSION_TIMEOUT then None else Some session)"

section \<open>Provider adapters (server/services/llm)\<close>

datatype Role = User | Assistant | System

definition roleName :: "Role \<Rightarrow> string" where
  "roleName r = (case r of User \<Rightarrow> ''user'' | Assistant \<Rightarrow> ''assistant'' | System \<Rightarrow> ''system'')"

record Message =
  role :: Role
  content :: string

record GenerateOptions =
  maxOutputTokens :: "int option"
  temperature :: "real option"
  topP :: "real option"
  topK :: "int option"

text \<open>\<open>options?.field ?? dflt\<close>\<close>

definition optionOr :: "GenerateOptions option \<Rightarrow> (GenerateOptions \<Rightarrow> 'a option) \<Rightarrow> 'a \<Rightarrow> 'a" where
  "optionOr options field dflt =
     (case options of
        None \<Rightarrow> dflt
      | Some opts \<Rightarrow> (case field opts of None \<Rightarrow> dflt | Some v \<Rightarrow> v))"

text \<open>
  The requests the adapters send, and what comes back. The replies are typed as the casts in
  the adapters type them. A rejected \<open>fetch\<close> or SDK call is an \<open>Exn\<close>.
\<close>

record GeminiContent =
  gRole :: string
  gParts :: "string list"

record GeminiRequest =
  gApiKey :: string
  gModel :: string
  gContents :: "GeminiContent list"
  gMaxOutputTokens :: int
  gTemperature :: real
  gTopP :: real
  gTopK :: int

text \<open>A candidate is the list of its \<open>content.parts\<close> (absent when either level is), each part its \<open>text\<close>.\<close>

type_synonym GeminiCandidate = "string option list option"

record GeminiResponse =
  gText :: "string option"
  gCandidates :: "GeminiCandidate list option"

record ApiMessage =
  apiRole :: string
  apiContent :: string

record OpenAIRequest =
  oUrl :: string
  oAuthorization :: string
  oModel :: string
  oMessages :: "ApiMessage list"
  oMaxTokens :: int
  oTemperature :: real

text \<open>
  \<open>HttpFailure status m\<close>: \<open>res.ok\<close> is false, \<open>m\<close> is \<open>err?.error?.message\<close> of the body
  (absent also when the body is not JSON); \<open>HttpBadBody m\<close>: \<open>res.ok\<close> but \<open>res.json()\<close>
  rejects with message \<open>m\<close>; \<open>HttpSuccess d\<close>: the parsed body.
\<close>

datatype 'd HttpReply = HttpFailure int "string option" | HttpBadBody string | HttpSuccess 'd

text \<open>\<open>choices\<close>: each choice is its \<open>message\<close>, each message its \<open>content\<close>.\<close>

type_synonym OpenAIData = "string option option list option"

record AnthropicRequest =
  aApiKey :: string
  aModel :: string
  aMaxTokens :: int
  aMessages :: "ApiMessage list"
  aSystem :: "string option"

text \<open>\<open>content\<close>: each block is its \<open>type\<close> and its \<open>text\<close>.\<close>

type_synonym AnthropicData = "(string option \<times> string option) list option"

datatype NetRequest =
    GeminiCall GeminiRequest
  | OpenAICall OpenAIRequest
  | AnthropicCall AnthropicRequest

record Network =
  geminiApi :: "GeminiRequest \<Rightarrow> Exn + GeminiResponse"
  openaiApi :: "OpenAIRequest \<Rightarrow> Exn + OpenAIData HttpReply"
  anthropicApi :: "AnthropicRequest \<Rightarrow> Exn + AnthropicData HttpReply"

text \<open>A provider object is the adapter family together with the configuration its closure holds.\<close>

datatype LLMProvider =
    NoOpProvider
  | GeminiProvider LLMConfig
  | OpenAIProvider LLMConfig
  | AnthropicProvider LLMConfig

definition geminiGenerateText ::
    "Network \<Rightarrow> LLMConfig \<Rightarrow> Message list \<Rightarrow> GenerateOptions option \<Rightarrow> (Exn + string) \<times> NetRequest list" where
  "geminiGenerateText net cfg messages options =
     (let contents = map (\<lambda>m. \<lparr>gRole = (if roleName (role m) = ''assistant'' then ''model'' else ''user''),
                                 gParts = [content m]\<rparr>) messages;
          contents = (if length contents = 0 then contents @ [\<lparr>gRole = ''user'', gParts = [ [] ]\<rparr>]
                      else contents);
          req = \<lparr>gApiKey = apiKey cfg, gModel = model cfg, gContents = contents,
                 gMaxOutputTokens = optionOr options maxOutputTokens 4096,
                 gTemperature = optionOr options temperature 0.1,
                 gTopP = optionOr options topP 0.9,
                 gTopK = optionOr options topK 40\<rparr>;
          noText = Inl (Error ''No text in Gemini response'')
      in (case geminiApi net req of
            Inl e \<Rightarrow> Inl e
          | Inr response \<Rightarrow>
              (if gText response \<noteq> None \<and> gText response \<noteq> Some []
               then Inr (the (gText response))
               else (case gCandidates response of
                       Some (Some (Some t # _) # _) \<Rightarrow> if t \<noteq> [] then Inr t else noText
                     | _ \<Rightarrow> noText)),
          [GeminiCall req]))"

definition openAiRole :: "Role \<Rightarrow> string" where
  "openAiRole r = (if roleName r = ''model'' then ''assistant'' else roleName r)"

text \<open>The base URL of the OpenAI adapter: \<open>baseUrl\<close> without one trailing slash, or the default.\<close>

definition openAIBaseUrl :: "LLMConfig \<Rightarrow> string" where
  "openAIBaseUrl cfg =
     (let stripped = (case baseUrl cfg of
                        None \<Rightarrow> []
                      | Some u \<Rightarrow> if u \<noteq> [] \<and> last u = CHR ''/'' then butlast u else u)
      in if stripped \<noteq> [] then stripped else ''https://api.openai.com/v1'')"

definition openAIGenerateText ::
    "Network \<Rightarrow> LLMConfig \<Rightarrow> Message list \<Rightarrow> GenerateOptions option \<Rightarrow> (Exn + string) \<times> NetRequest list" where
  "openAIGenerateText net cfg messages options =
     (let apiMessages = map (\<lambda>m. \<lparr>apiRole = openAiRole (role m), apiContent = content m\<rparr>) messages;
          req = \<lparr>oUrl = openAIBaseUrl cfg @ ''/chat/completions'',
                 oAuthorization = ''Bearer '' @ apiKey cfg,
                 oModel = model cfg, oMessages = apiMessages,
                 oMaxTokens = optionOr options maxOutputTokens 4096,
                 oTemperature = optionOr options temperature 0.1\<rparr>
      in (case openaiApi net req of
            Inl e \<Rightarrow> Inl e
          | Inr (HttpFailure st m) \<Rightarrow>
              Inl (Error (if m \<noteq> None \<and> m \<noteq> Some [] then the m
                          else ''OpenAI API error: '' @ showInt st))
          | Inr (HttpBadBody m) \<Rightarrow> Inl (SyntaxError m)
          | Inr (HttpSuccess choices) \<Rightarrow>
              (case choices of
                 Some (Some (Some text) # _) \<Rightarrow> Inr text
               | _ \<Rightarrow> Inl (Error ''No content in OpenAI response'')),
          [OpenAICall req]))"

text \<open>The loop of the Anthropic adapter: the last system message wins, the others are kept in order.\<close>

fun anthropicSplit :: "Message list \<Rightarrow> string option \<Rightarrow> ApiMessage list \<Rightarrow> string option \<times> ApiMessage list" where
  "anthropicSplit [] sys apiMessages = (sys, apiMessages)"
| "anthropicSplit (m # ms) sys apiMessages =
     (if roleName (role m) = ''system'' then anthropicSplit ms (Some (content m)) apiMessages
      else anthropicSplit ms sys
             (apiMessages @ [\<lparr>apiRole = (if roleName (role m) = ''assistant'' then ''assistant'' else ''user''),
                               apiContent = content m\<rparr>]))"

definition anthropicGenerateText ::
    "Network \<Rightarrow> LLMConfig \<Rightarrow> Message list \<Rightarrow> GenerateOptions option \<Rightarrow> (Exn + string) \<times> NetRequest list" where
  "anthropicGenerateText net cfg messages options =
     (case anthropicSplit messages None [] of
        (sys, apiMessages) \<Rightarrow>
          (let req = \<lparr>aApiKey = apiKey cfg, aModel = model cfg,
                      aMaxTokens = optionOr options maxOutputTokens 4096,
                      aMessages = apiMessages,
                      aSystem = (if sys \<noteq> None \<and> sys \<noteq> Some [] then sys else None)\<rparr>
           in (case anthropicApi net req of
                 Inl e \<Rightarrow> Inl e
               | Inr (HttpFailure st m) \<Rightarrow>
                   Inl (Error (if m \<noteq> None \<and> m \<noteq> Some [] then the m
                               else ''Anthropic API error: '' @ showInt st))
               | Inr (HttpBadBody m) \<Rightarrow> Inl (SyntaxError m)
               | Inr (HttpSuccess blocks) \<Rightarrow>
                   (case find (\<lambda>b. fst b = Some ''text'') (case blocks of None \<Rightarrow> [] | Some bs \<Rightarrow> bs) of
                      Some (_, Some text) \<Rightarrow> Inr text
                    | _ \<Rightarrow> Inl (Error ''No text in Anthropic response'')),
               [AnthropicCall req])))"

subsection \<open>Provider router (server/services/llm/index.ts)\<close>

definition UNCONFIGURED_MESSAGE :: string where
  "UNCONFIGURED_MESSAGE =
     ''AI is not configured. Please configure an AI provider (provider, model, and API key) in the settings.''"

definition createNoOpProvider :: LLMProvider where
  "createNoOpProvider = NoOpProvider"

definition createGeminiProvider :: "LLMConfig \<Rightarrow> LLMProvider" where
  "createGeminiProvider cfg = GeminiProvider cfg"

definition createOpenAIProvider :: "LLMConfig \<Rightarrow> LLMProvider" where
  "createOpenAIProvider cfg = OpenAIProvider cfg"

definition createAnthropicProvider :: "LLMConfig \<Rightarrow> LLMProvider" where
  "createAnthropicProvider cfg = AnthropicProvider cfg"

fun generateText ::
    "Network \<Rightarrow> LLMProvider \<Rightarrow> Message list \<Rightarrow> GenerateOptions option \<Rightarrow> (Exn + string) \<times> NetRequest list" where
  "generateText net NoOpProvider messages options = (Inr UNCONFIGURED_MESSAGE, [])"
| "generateText net (GeminiProvider cfg) messages options = geminiGenerateText net cfg messages options"
| "generateText net (OpenAIProvider cfg) messages options = openAIGenerateText net cfg messages options"
| "generateText net (AnthropicProvider cfg) messages options = anthropicGenerateText net cfg messages options"

definition getProvider :: "LLMConfig option \<Rightarrow> LLMProvider" where
  "getProvider cfg =
     (case cfg of
        None \<Rightarrow> createNoOpProvider
      | Some c \<Rightarrow>
          if trim (provider c) = [] \<or> trim (model c) = [] \<or> trim (apiKey c) = []
          then createNoOpProvider
          else (let p = toLowerCase (provider c)
                in if p = ''gemini'' \<or> p = ''google'' \<or> p = ''google gemini'' then createGeminiProvider c
                   else if p = ''openai'' \<or> p = ''custom'' then createOpenAIProvider c
                   else if p = ''anthropic'' \<or> p = ''claude'' then createAnthropicProvider c
                   else createNoOpProvider))"

text \<open>
  The vocabulary of the claims about the router and the adapters: a field is blank when it is
  empty or made of white space only; a request carries a list of (role, text) messages.
\<close>

definition isBlank :: "string \<Rightarrow> bool" where
  "isBlank s = list_all isWhiteSpace s"

fun requestMessages :: "NetRequest \<Rightarrow> (string \<times> string) list" where
  "requestMessages (GeminiCall r) = map (\<lambda>c. (gRole c, concat (gParts c))) (gContents r)"
| "requestMessages (OpenAICall r) = map (\<lambda>m. (apiRole m, apiContent m)) (oMessages r)"
| "requestMessages (AnthropicCall r) = map (\<lambda>m. (apiRole m, apiContent m)) (aMessages r)"

section \<open>\<open>JSON.parse\<close>\<close>

text \<open>
  JSON values, over a type of strings; a number is kept as its lexeme. In the value
  \<open>JSON.parse\<close> returns a string is a list of code units (numbers), since an escape of four
  hex digits can denote any of them; request and response bodies carry strings of the model. The parser is a
  tokenizer followed by a stack automaton, both by recursion on their input, so parsing is
  total: text that is not JSON yields the \<open>SyntaxError\<close>.
\<close>

datatype 's Json =
    JNull
  | JBool bool
  | JNumber string
  | JString 's
  | JArray "'s Json list"
  | JObject "('s \<times> 's Json) list"

type_synonym JsValue = "nat list Json"

definition codeUnits :: "string \<Rightarrow> nat list" where
  "codeUnits s = map of_char s"

datatype Token =
    TLBrace | TRBrace | TLBracket | TRBracket | TColon | TComma
  | TString "nat list" | TNumber string | TTrue | TFalse | TNull

datatype LexMode =
    LexStart
  | LexString "nat list"
  | LexEscape "nat list"
  | LexUnicode "nat list" "nat list"
  | LexNumber string
  | LexWord string

definition isJsonSpace :: "char \<Rightarrow> bool" where
  "isJsonSpace c = (of_char c \<in> {32, 9, 10, 13 :: nat})"

definition isDigit :: "char \<Rightarrow> bool" where
  "isDigit c = (48 \<le> (of_char c :: nat) \<and> (of_char c :: nat) \<le> 57)"

definition isLowerLetter :: "char \<Rightarrow> bool" where
  "isLowerLetter c = (97 \<le> (of_char c :: nat) \<and> (of_char c :: nat) \<le> 122)"

definition hexValue :: "char \<Rightarrow> nat option" where
  "hexValue c =
     (let n = of_char c :: nat
      in if 48 \<le> n \<and> n \<le> 57 then Some (n - 48)
         else if 97 \<le> n \<and> n \<le> 102 then Some (n - 87)
         else if 65 \<le> n \<and> n \<le> 70 then Some (n - 55)
         else None)"

text \<open>The number grammar: \<open>-? (0 | [1-9][0-9]*) (. [0-9]+)? ([eE] [+-]? [0-9]+)?\<close>\<close>

definition isExponent :: "string \<Rightarrow> bool" where
  "isExponent r =
     (case r of
        [] \<Rightarrow> True
      | e # r1 \<Rightarrow>
          (e = CHR ''e'' \<or> e = CHR ''E'') \<and>
          (let r2 = (case r1 of [] \<Rightarrow> [] | s # t \<Rightarrow> if s = CHR ''+'' \<or> s = CHR ''-'' then t else r1)
           in r2 \<noteq> [] \<and> list_all isDigit r2))"

definition isFraction :: "string \<Rightarrow> bool" where
  "isFraction r =
     (case r of
        [] \<Rightarrow> True
      | d # r1 \<Rightarrow>
          if d = CHR ''.'' then takeWhile isDigit r1 \<noteq> [] \<and> isExponent (dropWhile isDigit r1)
          else isExponent r)"

definition isNumber :: "string \<Rightarrow> bool" where
  "isNumber s =
     (let s1 = (case s of [] \<Rightarrow> [] | m # t \<Rightarrow> if m = CHR ''-'' then t else s);
          ds = takeWhile isDigit s1
      in ds \<noteq> [] \<and> (take 1 ds \<noteq> ''0'' \<or> length ds = 1) \<and> isFraction (dropWhile isDigit s1))"

definition wordToken :: "string \<Rightarrow> Token option" where
  "wordToken w =
     (if w = ''true'' then Some TTrue
      else if w = ''false'' then Some TFalse
      else if w = ''null'' then Some TNull
      else None)"

definition lexStart :: "char \<Rightarrow> Token list \<Rightarrow> (LexMode \<times> Token list) option" where
  "lexStart c toks =
     (if isJsonSpace c then Some (LexStart, toks)
      else if c = CHR ''{'' then Some (LexStart, toks @ [TLBrace])
      else if c = CHR ''}'' then Some (LexStart, toks @ [TRBrace])
      else if c = CHR ''['' then Some (LexStart, toks @ [TLBracket])
      else if c = CHR '']'' then Some (LexStart, toks @ [TRBracket])
      else if c = CHR '':'' then Some (LexStart, toks @ [TColon])
      else if c = CHR '','' then Some (LexStart, toks @ [TComma])
      else if c = CHR 0x22 then Some (LexString [], toks)
      else if c = CHR ''-'' \<or> isDigit c then Some (LexNumber [c], toks)
      else if isLowerLetter c then Some (LexWord [c], toks)
      else None)"

definition escapeChar :: "char \<Rightarrow> nat option" where
  "escapeChar c =
     (if c = CHR 0x22 then Some 34
      else if c = CHR 0x5C then Some 92
      else if c = CHR ''/'' then Some 47
      else if c = CHR ''b'' then Some 8
      else if c = CHR ''f'' then Some 12
      else if c = CHR ''n'' then Some 10
      else if c = CHR ''r'' then Some 13
      else if c = CHR ''t'' then Some 9
      else None)"

fun lexStep :: "LexMode \<Rightarrow> char \<Rightarrow> Token list \<Rightarrow> (LexMode \<times> Token list) option" where
  "lexStep LexStart c toks = lexStart c toks"
| "lexStep (LexString acc) c toks =
     (if c = CHR 0x22 then Some (LexStart, toks @ [TString acc])
      else if c = CHR 0x5C then Some (LexEscape acc, toks)
      else if (of_char c :: nat) < 32 then None
      else Some (LexString (acc @ [of_char c]), toks))"
| "lexStep (LexEscape acc) c toks =
     (if c = CHR ''u'' then Some (LexUnicode acc [], toks)
      else (case escapeChar c of
              None \<Rightarrow> None
            | Some u \<Rightarrow> Some (LexString (acc @ [u]), toks)))"
| "lexStep (LexUnicode acc hs) c toks =
     (case hexValue c of
        None \<Rightarrow> None
      | Some h \<Rightarrow>
          (let hs1 = hs @ [h]
           in if length hs1 = 4
              then Some (LexString (acc @ [foldl (\<lambda>v d. 16 * v + d) 0 hs1]), toks)
              else Some (LexUnicode acc hs1, toks)))"
| "lexStep (LexNumber lexeme) c toks =
     (if isDigit c \<or> c \<in> set ''+-.eE'' then Some (LexNumber (lexeme @ [c]), toks)
      else if isNumber lexeme then lexStart c (toks @ [TNumber lexeme])
      else None)"
| "lexStep (LexWord w) c toks =
     (if isLowerLetter c then Some (LexWord (w @ [c]), toks)
      else (case wordToken w of
              None \<Rightarrow> None
            | Some t \<Rightarrow> lexStart c (toks @ [t])))"

fun lexEnd :: "LexMode \<Rightarrow> Token list \<Rightarrow> Token list option" where
  "lexEnd LexStart toks = Some toks"
| "lexEnd (LexNumber lexeme) toks = (if isNumber lexeme then Some (toks @ [TNumber lexeme]) else None)"
| "lexEnd (LexWord w) toks = map_option (\<lambda>t. toks @ [t]) (wordToken w)"
| "lexEnd _ toks = None"

fun lexAll :: "LexMode \<Rightarrow> Token list \<Rightarrow> string \<Rightarrow> Token list option" where
  "lexAll mode toks [] = lexEnd mode toks"
| "lexAll mode toks (c # cs) =
     (case lexStep mode c toks of
        None \<Rightarrow> None
      | Some (mode1, toks1) \<Rightarrow> lexAll mode1 toks1 cs)"

text \<open>
  The automaton keeps the open containers on a stack. A repeated key of an object keeps the
  place of its creation and takes the last value.
\<close>

datatype Frame =
    ArrayFrame "JsValue list"
  | ObjectFrame "(nat list \<times> JsValue) list" "nat list option"

datatype Expect =
    ExpValue | ExpValueOrClose | ExpCommaOrCloseArray
  | ExpKeyOrClose | ExpKey | ExpColon | ExpCommaOrCloseObject | ExpEnd

fun setKey :: "nat list \<Rightarrow> JsValue \<Rightarrow> (nat list \<times> JsValue) list \<Rightarrow> (nat list \<times> JsValue) list" where
  "setKey k v [] = [(k, v)]"
| "setKey k v ((k1, v1) # kvs) = (if k = k1 then (k1, v) # kvs else (k1, v1) # setKey k v kvs)"

text \<open>
  The members of the object that \<open>JSON.parse\<close> returns are its own properties in the order
  in which the object enumerates them: the keys that are array indices first, in ascending
  numeric order, then the other keys in the order of their creation. An array index is the
  canonical decimal numeral of an integer below \<open>2^32 - 1\<close>.
\<close>

definition arrayIndexOf :: "nat list \<Rightarrow> int option" where
  "arrayIndexOf k =
     (let v = foldl (\<lambda>v c. 10 * v + (int c - 48)) 0 k
      in if k \<noteq> [] \<and> list_all (\<lambda>c. 48 \<le> c \<and> c \<le> 57) k
            \<and> (length k = 1 \<or> take 1 k \<noteq> [48]) \<and> v < 4294967295
         then Some v else None)"

definition ownPropertyOrder :: "(nat list \<times> 'v) list \<Rightarrow> (nat list \<times> 'v) list" where
  "ownPropertyOrder props =
     sort_key (\<lambda>(k, v). case arrayIndexOf k of None \<Rightarrow> 0 | Some i \<Rightarrow> i)
        (filter (\<lambda>(k, v). arrayIndexOf k \<noteq> None) props)
     @ filter (\<lambda>(k, v). arrayIndexOf k = None) props"

type_synonym ParseState = "Frame list \<times> Expect \<times> JsValue option"

fun complete :: "JsValue \<Rightarrow> Frame list \<Rightarrow> ParseState option" where
  "complete v [] = Some ([], ExpEnd, Some v)"
| "complete v (ArrayFrame xs # st) = Some (ArrayFrame (xs @ [v]) # st, ExpCommaOrCloseArray, None)"
| "complete v (ObjectFrame kvs (Some k) # st) =
     Some (ObjectFrame (setKey k v kvs) None # st, ExpCommaOrCloseObject, None)"
| "complete v (ObjectFrame kvs None # st) = None"

fun closeArray :: "Frame list \<Rightarrow> ParseState option" where
  "closeArray (ArrayFrame xs # st) = complete (JArray xs) st"
| "closeArray _ = None"

fun closeObject :: "Frame list \<Rightarrow> ParseState option" where
  "closeObject (ObjectFrame kvs None # st) = complete (JObject (ownPropertyOrder kvs)) st"
| "closeObject _ = None"

fun pendingKey :: "nat list \<Rightarrow> Frame list \<Rightarrow> ParseState option" where
  "pendingKey k (ObjectFrame kvs None # st) = Some (ObjectFrame kvs (Some k) # st, ExpColon, None)"
| "pendingKey k _ = None"

fun startValue :: "Token \<Rightarrow> Frame list \<Rightarrow> ParseState option" where
  "startValue TLBracket st = Some (ArrayFrame [] # st, ExpValueOrClose, None)"
| "startValue TLBrace st = Some (ObjectFrame [] None # st, ExpKeyOrClose, None)"
| "startValue (TString s) st = complete (JString s) st"
| "startValue (TNumber n) st = complete (JNumber n) st"
| "startValue TTrue st = complete (JBool True) st"
| "startValue TFalse st = complete (JBool False) st"
| "startValue TNull st = complete JNull st"
| "startValue _ st = None"

fun parseStep :: "Token \<Rightarrow> ParseState \<Rightarrow> ParseState option" where
  "parseStep t (st, ExpValue, r) = startValue t st"
| "parseStep t (st, ExpValueOrClose, r) = (if t = TRBracket then closeArray st else startValue t st)"
| "parseStep t (st, ExpCommaOrCloseArray, r) =
     (if t = TComma then Some (st, ExpValue, None)
      else if t = TRBracket then closeArray st
      else None)"
| "parseStep t (st, ExpKeyOrClose, r) =
     (case t of TString k \<Rightarrow> pendingKey k st | TRBrace \<Rightarrow> closeObject st | _ \<Rightarrow> None)"
| "parseStep t (st, ExpKey, r) = (case t of TString k \<Rightarrow> pendingKey k st | _ \<Rightarrow> None)"
| "parseStep t (st, ExpColon, r) = (if t = TColon then Some (st, ExpValue, None) else None)"
| "parseStep t (st, ExpCommaOrCloseObject, r) =
     (if t = TComma then Some (st, ExpKey, None)
      else if t = TRBrace then closeObject st
      else None)"
| "parseStep t (st, ExpEnd, r) = None"

fun parseAll :: "ParseState \<Rightarrow> Token list \<Rightarrow> JsValue option" where
  "parseAll (st, e, r) [] = (if e = ExpEnd then r else None)"
| "parseAll s (t # ts) =
     (case parseStep t s of
        None \<Rightarrow> None
      | Some s1 \<Rightarrow> parseAll s1 ts)"

definition JSON_parse :: "string \<Rightarrow> Exn + JsValue" where
  "JSON_parse s =
     (case lexAll LexStart [] s of
        None \<Rightarrow> Inl (SyntaxError ''Unexpected token in JSON'')
      | Some toks \<Rightarrow>
          (case parseAll ([], ExpValue, None) toks of
             None \<Rightarrow> Inl (SyntaxError ''Unexpected token in JSON'')
           | Some v \<Rightarrow> Inr v))"

definition Array_isArray :: "JsValue \<Rightarrow> bool" where
  "Array_isArray v = (case v of JArray xs \<Rightarrow> True | _ \<Rightarrow> False)"

section \<open>Summary and chat orchestrator (server/services/llm-service.ts)\<close>

text \<open>
  An audit-log record. \<open>created\<close> is the time value of the date (epoch milliseconds),
  \<open>None\<close> for an invalid date. Of the free-form \<open>content\<close> the orchestrator reads two
  fields, which the source casts to strings; \<open>logContent\<close> is \<open>None\<close> for a null content.
\<close>

record LogContent =
  user_email :: "string option"
  user_id :: "string option"

record AuditLog =
  logId :: string
  event :: string
  created :: "int option"
  logOrgId :: "string option"
  logGroupId :: "string option"
  logProjectId :: "string option"
  logContent :: "LogContent option"

text \<open>
  What an orchestrator call does besides returning: each call of a provider's
  \<open>generateText\<close>, followed by the network requests that call sends.
\<close>

datatype Effect = ProviderCall LLMProvider "Message list" | NetCall NetRequest

definition callProvider ::
    "Network \<Rightarrow> LLMProvider \<Rightarrow> Message list \<Rightarrow> GenerateOptions option \<Rightarrow> (Exn + string) \<times> Effect list" where
  "callProvider net p messages options =
     (case generateText net p messages options of
        (r, reqs) \<Rightarrow> (r, ProviderCall p messages # map NetCall reqs))"

definition recentLogs :: "int \<Rightarrow> AuditLog list \<Rightarrow> AuditLog list" where
  "recentLogs now auditLogs =
     (let oneDayAgo = now - 24 * 60 * 60 * 1000
      in filter (\<lambda>entry. case created entry of None \<Rightarrow> False | Some c \<Rightarrow> c \<ge> oneDayAgo) auditLogs)"



fun countEvent :: "string \<Rightarrow> (string \<times> int) list \<Rightarrow> (string \<times> int) list" where
  "countEvent k [] = [(k, 1)]"
| "countEvent k ((k1, c) # acc) = (if k = k1 then (k1, c + 1) # acc else (k1, c) # countEvent k acc)"

definition eventSummary :: "AuditLog list \<Rightarrow> (string \<times> int) list" where
  "eventSummary logSummary = foldl (\<lambda>acc entry. countEvent (event entry) acc) [] logSummary"

definition arrayIndex :: "string \<Rightarrow> int option" where
  "arrayIndex k =
     (let v = foldl (\<lambda>v c. 10 * v + (of_char c - 48)) (0 :: int) k
      in if k \<noteq> [] \<and> list_all (\<lambda>c. 48 \<le> (of_char c :: nat) \<and> (of_char c :: nat) \<le> 57) k
            \<and> (length k = 1 \<or> take 1 k \<noteq> ''0'') \<and> v < 4294967295
         then Some v else None)"

definition objectEntries :: "(string \<times> int) list \<Rightarrow> (string \<times> int) list" where
  "objectEntries props =
     sort_key (\<lambda>(k, c). case arrayIndex k of None \<Rightarrow> 0 | Some i \<Rightarrow> i)
        (filter (\<lambda>(k, c). arrayIndex k \<noteq> None) props)
     @ filter (\<lambda>(k, c). arrayIndex k = None) props"

definition topEvents :: "AuditLog list \<Rightarrow> string" where
  "topEvents logSummary =
     join '', ''
       (map (\<lambda>(ev, c). ev @ '': '' @ showInt c)
          (take 5 (sort_key (\<lambda>(ev, c). - c) (objectEntries (eventSummary logSummary)))))"

definition userOf :: "AuditLog \<Rightarrow> string" where
  "userOf entry =
     (case logContent entry of
        None \<Rightarrow> ''Unknown''
      | Some c \<Rightarrow>
          if user_email c \<noteq> None \<and> user_email c \<noteq> Some [] then the (user_email c)
          else if user_id c \<noteq> None \<and> user_id c \<noteq> Some [] then the (user_id c)
          else ''Unknown'')"

definition uniqueUsers :: "AuditLog list \<Rightarrow> int" where
  "uniqueUsers logSummary = int (length (remdups (map userOf logSummary)))"

definition NO_RECENT_LOGS :: string where
  "NO_RECENT_LOGS =
     ''No recent audit logs found in the last 24 hours. Please check if your Snyk organization has recent activity.''"

text \<open>
  The prompt of the executive summary. \<open>currentDate\<close> is the rendering of the current date
  by \<open>toLocaleDateString\<close>. The pictographs in the section headings are outside the range of
  the model's strings and are written as their code points.
\<close>

definition summaryPrompt :: "string \<Rightarrow> AuditLog list \<Rightarrow> string" where
  "summaryPrompt currentDate logSummary =
     join [CHR 0x0A]
      [''Create a comprehensive executive security summary for Snyk audit events from the last 24 hours.'',
       '''',
       ''IMPORTANT: Today's date is '' @ currentDate @ ''. Use this as the report date and reference timeframe.'',
       '''',
       ''Event Data: '' @ showInt (int (length logSummary)) @ '' events, '' @ showInt (uniqueUsers logSummary) @ '' users'',
       ''Top Events: '' @ topEvents logSummary,
       '''',
       ''Generate a detailed executive report with these sections:'',
       '''',
       ''## Executive Security Summary'',
       '''',
       ''### U+1F50D Activity Overview'',
       ''Provide a thorough assessment of security activity and operational posture over the last 24 hours. Include the current date ('' @ currentDate @ '') in your analysis.'',
       '''',
       ''### U+1F6A8 Critical Events'',
       ''Analyze the top security events by frequency and potential impact, including specific details about each event type.'',
       '''',
       ''### U+26A0 U+FE0F Risk Analysis'',
       ''Evaluate security concerns, threat patterns, and vulnerability implications from the logged activities.'',
       '''',
       ''### U+1F465 User Activity Insights'',
       ''Examine user behavior patterns, access trends, and any anomalies in user actions.'',
       '''',
       ''### U+1F4CB Recommendations'',
       ''Provide detailed, prioritized actionable steps for leadership with High/Medium/Low priority levels and business impact analysis.'',
       '''',
       ''### U+1F4CA Key Metrics & Trends'',
       ''Present comprehensive statistics including event frequencies, user engagement, and security posture indicators.'',
       '''',
       ''Create a professional, detailed executive-level analysis with complete sections. Use proper Markdown formatting with headers, bullet points, bold text, and comprehensive insights.'']"

definition generateExecutiveSummary ::
    "Network \<Rightarrow> int \<Rightarrow> string \<Rightarrow> AuditLog list \<Rightarrow> LLMConfig option \<Rightarrow> string \<times> Effect list" where
  "generateExecutiveSummary net now currentDate auditLogs llmCfg =
     (let recent = recentLogs now auditLogs;
          logSummary = take 200 recent
      in if length recent = 0 then (NO_RECENT_LOGS, [])
         else (let prompt = summaryPrompt currentDate logSummary;
                   p = getProvider llmCfg
               in case callProvider net p [\<lparr>role = User, content = prompt\<rparr>]
                         (Some \<lparr>maxOutputTokens = Some 4096, temperature = Some 0.1,
                                topP = Some 0.9, topK = Some 40\<rparr>) of
                    (Inr text, eff) \<Rightarrow> (text, eff)
                  | (Inl e, eff) \<Rightarrow> (''Summary generation error: '' @ errorMessage e, eff)))"

text \<open>
  Insight extraction. \<open>stringify\<close> is \<open>JSON.stringify(_, null, 2)\<close> on the projected records.
  At run time the function returns whatever array the response text parses to.
\<close>

definition analyzePrompt :: "(AuditLog list \<Rightarrow> string) \<Rightarrow> AuditLog list \<Rightarrow> string" where
  "analyzePrompt stringify logSummary =
     join [CHR 0x0A]
      ['''',
       ''Analyze these Snyk audit logs and provide security insights:'',
       '''',
       stringify logSummary,
       '''',
       ''Please provide:'',
       ''1. Key security events summary'',
       ''2. Risk patterns or anomalies'',
       ''3. Recommendations for improvement'',
       ''4. Overall security posture assessment'',
       '''',
       ''Format as a JSON array of string insights.'',
       '''']"

definition analyzeAuditLogs ::
    "Network \<Rightarrow> (AuditLog list \<Rightarrow> string) \<Rightarrow> AuditLog list \<Rightarrow> LLMConfig option
      \<Rightarrow> JsValue list \<times> Effect list" where
  "analyzeAuditLogs net stringify auditLogs llmCfg =
     (let logSummary = take 100 auditLogs;
          prompt = analyzePrompt stringify logSummary;
          p = getProvider llmCfg
      in case callProvider net p [\<lparr>role = User, content = prompt\<rparr>] None of
           (Inr result, eff) \<Rightarrow>
             (case JSON_parse result of
                Inr insights \<Rightarrow>
                  (case insights of
                     JArray xs \<Rightarrow> (xs, eff)
                   | _ \<Rightarrow> ([JString (codeUnits result)], eff))
              | Inl _ \<Rightarrow> ([JString (codeUnits result)], eff))
         | (Inl e, eff) \<Rightarrow> ([JString (codeUnits (''Analysis error: '' @ errorMessage e))], eff))"

text \<open>Chat turn. A message of the stored conversation has a role, a content and a timestamp.\<close>

record ChatMessage =
  chatRole :: string
  chatContent :: string
  timestamp :: string

definition chatPrompt ::
    "(AuditLog list \<Rightarrow> string) \<Rightarrow> string \<Rightarrow> AuditLog list \<Rightarrow> ChatMessage list \<Rightarrow> string" where
  "chatPrompt stringify message context previousMessages =
     join [CHR 0x0A]
      [''You are a security analyst assistant for Snyk audit logs. '',
       ''You have access to recent audit log data and can help users understand security events, '',
       ''identify patterns, and provide recommendations.'',
       '''',
       ''Recent audit logs context:'',
       stringify context,
       '''',
       ''Previous conversation:'',
       join [CHR 0x0A] (map (\<lambda>msg. chatRole msg @ '': '' @ chatContent msg) previousMessages),
       '''',
       ''Current user message: '' @ message,
       '''',
       ''IMPORTANT: Respond in PLAIN TEXT format only. Do not use Markdown formatting like **bold**, *italics*, # headers, - bullet points, ## headings, or any other Markdown syntax. Use simple text with line breaks for readability.'',
       '''',
       ''Please provide helpful, security-focused responses based on the audit log data using plain text formatting only.'']"

definition chatWithAI ::
    "Network \<Rightarrow> (AuditLog list \<Rightarrow> string) \<Rightarrow> string \<Rightarrow> AuditLog list \<Rightarrow> ChatMessage list
      \<Rightarrow> LLMConfig option \<Rightarrow> string \<times> Effect list" where
  "chatWithAI net stringify message auditLogs previousMessages llmCfg =
     (let context = take 50 auditLogs;
          systemContent = chatPrompt stringify message context previousMessages;
          p = getProvider llmCfg
      in case callProvider net p [\<lparr>role = User, content = systemContent\<rparr>] None of
           (Inr result, eff) \<Rightarrow>
             (if result \<noteq> [] then result
              else ''I apologize, but I couldn't process your request at this time.'', eff)
         | (Inl e, eff) \<Rightarrow> (''I encountered an error: '' @ errorMessage e @ ''. Please try again.'', eff))"

text \<open>A network on which every provider answers with the same text, and texts to answer with.\<close>

definition replyNetwork :: "string \<Rightarrow> Network" where
  "replyNetwork txt =
     \<lparr>geminiApi = (\<lambda>r. Inr \<lparr>gText = Some txt, gCandidates = None\<rparr>),
      openaiApi = (\<lambda>r. Inr (HttpSuccess (Some [Some (Some txt)]))),
      anthropicApi = (\<lambda>r. Inr (HttpSuccess (Some [(Some ''text'', Some txt)])))\<rparr>"

definition twoInsightsText :: string where
  "twoInsightsText =
     [CHR ''['', CHR 0x22, CHR ''a'', CHR 0x22, CHR '','', CHR 0x22, CHR ''b'', CHR 0x22, CHR '']'']"

definition demoLog :: "string \<Rightarrow> int option \<Rightarrow> AuditLog" where
  "demoLog ev t =
     \<lparr>logId = ''id'', event = ev, created = t, logOrgId = None, logGroupId = None,
      logProjectId = None, logContent = None\<rparr>"

text \<open>
  The vocabulary of the claims about the executive summary: a time is within the last 24
  hours when it is neither before \<open>now\<close> minus 24 hours nor after \<open>now\<close>; the frequency of
  an event is the number of records that carry it.
\<close>

definition withinLast24h :: "int \<Rightarrow> int \<Rightarrow> bool" where
  "withinLast24h now c = (now - 24 * 60 * 60 * 1000 \<le> c \<and> c \<le> now)"


text \<open>The vocabulary of the claim about insight extraction.\<close>

definition isString :: "JsValue \<Rightarrow> bool" where
  "isString v = (case v of JString s \<Rightarrow> True | _ \<Rightarrow> False)"

section \<open>HTTP endpoints (server/routes.ts)\<close>

text \<open>
  A handler returns the response it sends: a status and a JSON body. A property whose value
  is \<open>undefined\<close> is left out of the body, as \<open>res.json\<close> does. Each handler also returns the
  session store it leaves behind and what it did to the session cookie. A handler that calls
  the store twice reads the cookie of the same request both times, and takes the random
  bytes of a possible second session id as \<open>rnd2\<close>.
\<close>

record Response =
  status :: int
  body :: "string Json"

definition jsonResponse :: "string Json \<Rightarrow> Response" where
  "jsonResponse v = \<lparr>status = 200, body = v\<rparr>"

definition errorResponse :: "int \<Rightarrow> string \<Rightarrow> Response" where
  "errorResponse st m = \<lparr>status = st, body = JObject [(''error'', JString m)]\<rparr>"

definition optProp :: "string \<Rightarrow> string option \<Rightarrow> (string \<times> string Json) list" where
  "optProp k v = (case v of None \<Rightarrow> [] | Some s \<Rightarrow> [(k, JString s)])"

definition numberOrNull :: "int option \<Rightarrow> string Json" where
  "numberOrNull v = (case v of None \<Rightarrow> JNull | Some n \<Rightarrow> JNumber (showInt n))"

definition GET_api_config ::
    "int \<Rightarrow> nat list \<Rightarrow> nat list \<Rightarrow> string option \<Rightarrow> sessions \<Rightarrow> Response \<times> sessions \<times> CookieOp list" where
  "GET_api_config now rnd rnd2 cookie ss =
     (case getApiConfiguration now rnd cookie ss of
        (None, ss1, out1) \<Rightarrow> (jsonResponse JNull, ss1, out1)
      | (Some (cfg, sessionId), ss1, out1) \<Rightarrow>
          (case getTimeUntilExpiration now rnd2 cookie ss1 of
             (timeRemaining, ss2, out2) \<Rightarrow>
               (jsonResponse (JObject
                  (optProp ''groupId'' (groupId cfg) @ optProp ''orgId'' (orgId cfg)
                   @ optProp ''apiVersion'' (apiVersion cfg)
                   @ [(''snykApiToken'', JString ''***''),
                      (''expiresInMinutes'', numberOrNull timeRemaining),
                      (''sessionId'', JString sessionId)])),
                ss2, out1 @ out2)))"

text \<open>
  The body of POST /api/config, its fields strings when present, as the store's interface
  types them. \<open>test token version\<close> is \<open>new SnykApiClient(token, version).testConnection()\<close>:
  the verdict of the upstream API and its message.
\<close>

record ConfigBody =
  bodyToken :: "string option"
  bodyGroupId :: "string option"
  bodyOrgId :: "string option"
  bodyApiVersion :: "string option"

definition POST_api_config ::
    "(string \<Rightarrow> string \<Rightarrow> bool \<times> string) \<Rightarrow> int \<Rightarrow> nat list \<Rightarrow> nat list \<Rightarrow> string option
      \<Rightarrow> ConfigBody \<Rightarrow> sessions \<Rightarrow> Response \<times> sessions \<times> CookieOp list" where
  "POST_api_config test now rnd rnd2 cookie b ss =
     (if bodyToken b = None \<or> bodyToken b = Some []
      then (errorResponse 400 ''Snyk API token is required'', ss, [])
      else (let token = the (bodyToken b);
                result = test token (case bodyApiVersion b of None \<Rightarrow> ''2024-10-15'' | Some v \<Rightarrow> v)
            in if \<not> fst result then (errorResponse 400 (snd result), ss, [])
               else (let version = (if bodyApiVersion b \<noteq> None \<and> bodyApiVersion b \<noteq> Some []
                                    then the (bodyApiVersion b) else ''2024-10-15'');
                         cfg = \<lparr>snykApiToken = token, groupId = bodyGroupId b, orgId = bodyOrgId b,
                                 apiVersion = Some version\<rparr>
                     in case setApiConfiguration now rnd cookie cfg 30 ss of
                          Inl e \<Rightarrow> (errorResponse 500 (errorMessage e), ss, [])
                        | Inr (sessionId, ss1, out1) \<Rightarrow>
                            (case getTimeUntilExpiration now rnd2 cookie ss1 of
                               (timeRemaining, ss2, out2) \<Rightarrow>
                                 (jsonResponse (JObject
                                    (optProp ''groupId'' (bodyGroupId b) @ optProp ''orgId'' (bodyOrgId b)
                                     @ [(''apiVersion'', JString version),
                                        (''snykApiToken'', JString ''***''),
                                        (''expiresInMinutes'', numberOrNull timeRemaining),
                                        (''sessionId'', JString sessionId)])),
                                  ss2, out1 @ out2)))))"

definition GET_api_llm_config ::
    "int \<Rightarrow> nat list \<Rightarrow> string option \<Rightarrow> sessions \<Rightarrow> Response \<times> sessions \<times> CookieOp list" where
  "GET_api_llm_config now rnd cookie ss =
     (case getLlmConfiguration now rnd cookie ss of
        (None, ss1, out) \<Rightarrow> (jsonResponse JNull, ss1, out)
      | (Some (cfg, sessionId), ss1, out) \<Rightarrow>
          (jsonResponse (JObject [(''provider'', JString (provider cfg)),
                                  (''model'', JString (model cfg)),
                                  (''configured'', JBool True)]),
           ss1, out))"

text \<open>
  The body of POST /api/llm-config: each field absent or any JSON value. \<open>truthy\<close> and
  \<open>typeof\<close> are those of JavaScript; a number is falsy when its lexeme denotes zero.
\<close>

record LlmConfigBody =
  bodyProvider :: "string Json option"
  bodyModel :: "string Json option"
  bodyApiKey :: "string Json option"
  bodyBaseUrl :: "string Json option"

definition truthy :: "string Json option \<Rightarrow> bool" where
  "truthy v =
     (case v of
        None \<Rightarrow> False
      | Some JNull \<Rightarrow> False
      | Some (JBool b) \<Rightarrow> b
      | Some (JNumber n) \<Rightarrow> \<not> list_all (\<lambda>c. c \<in> set ''-0.'') (takeWhile (\<lambda>c. c \<notin> set ''eE'') n)
      | Some (JString s) \<Rightarrow> s \<noteq> []
      | Some (JArray xs) \<Rightarrow> True
      | Some (JObject kvs) \<Rightarrow> True)"

definition typeof :: "string Json option \<Rightarrow> string" where
  "typeof v =
     (case v of
        None \<Rightarrow> ''undefined''
      | Some JNull \<Rightarrow> ''object''
      | Some (JBool b) \<Rightarrow> ''boolean''
      | Some (JNumber n) \<Rightarrow> ''number''
      | Some (JString s) \<Rightarrow> ''string''
      | Some (JArray xs) \<Rightarrow> ''object''
      | Some (JObject kvs) \<Rightarrow> ''object'')"

definition stringValue :: "string Json option \<Rightarrow> string" where
  "stringValue v = (case v of Some (JString s) \<Rightarrow> s | _ \<Rightarrow> [])"

definition POST_api_llm_config ::
    "int \<Rightarrow> nat list \<Rightarrow> string option \<Rightarrow> LlmConfigBody \<Rightarrow> sessions \<Rightarrow> Response \<times> sessions \<times> CookieOp list" where
  "POST_api_llm_config now rnd cookie b ss =
     (if \<not> truthy (bodyProvider b) \<or> typeof (bodyProvider b) \<noteq> ''string''
         \<or> \<not> truthy (bodyModel b) \<or> typeof (bodyModel b) \<noteq> ''string''
         \<or> \<not> truthy (bodyApiKey b) \<or> typeof (bodyApiKey b) \<noteq> ''string''
      then (errorResponse 400 ''provider, model, and apiKey are required'', ss, [])
      else (let cfg = \<lparr>provider = trim (stringValue (bodyProvider b)),
                       model = trim (stringValue (bodyModel b)),
                       apiKey = trim (stringValue (bodyApiKey b)),
                       baseUrl = (if truthy (bodyBaseUrl b) \<and> typeof (bodyBaseUrl b) = ''string''
                                  then (if trim (stringValue (bodyBaseUrl b)) \<noteq> []
                                        then Some (trim (stringValue (bodyBaseUrl b))) else None)
                                  else None)\<rparr>
            in case setLlmConfiguration now rnd cookie cfg 30 ss of
                 Inl e \<Rightarrow> (errorResponse 500 (errorMessage e), ss, [])
               | Inr (sessionId, ss1, out) \<Rightarrow>
                   (jsonResponse (JObject [(''provider'', JString (trim (stringValue (bodyProvider b)))),
                                           (''model'', JString (trim (stringValue (bodyModel b)))),
                                           (''configured'', JBool True)]),
                    ss1, out)))"

text \<open>
  The vocabulary of the claim about secrets: two stores differ only in the secret values
  when they agree after the Snyk API token and the LLM API key of every session are blanked.
\<close>

definition redactSession :: "CookieSession \<Rightarrow> CookieSession" where
  "redactSession s =
     s\<lparr>snykConfig := map_option (\<lambda>st. st\<lparr>config := (config st)\<lparr>snykApiToken := []\<rparr>\<rparr>) (snykConfig s),
       llmConfig := map_option (\<lambda>st. st\<lparr>config := (config st)\<lparr>apiKey := []\<rparr>\<rparr>) (llmConfig s)\<rparr>"

definition redactStore :: "sessions \<Rightarrow> sessions" where
  "redactStore ss = (\<lambda>k. map_option redactSession (ss k))"

definition bodyFields :: "Response \<Rightarrow> (string \<times> string Json) list" where
  "bodyFields r = (case body r of JObject kvs \<Rightarrow> kvs | _ \<Rightarrow> [])"

subsection \<open>Schema validation (shared/schema.ts)\<close>

text \<open>
  The two Zod schemas. An issue is what zod records of a violated constraint: its path and,
  by its code, \<open>invalid_type\<close> with the expected and the received type, \<open>too_small\<close> with
  the type and the inclusive minimum, \<open>too_big\<close> with the type and the inclusive maximum.
  The library is not among the sources: \<open>issueText\<close> is the message it gives the \<open>ZodError\<close>
  that \<open>parse\<close> throws for a list of issues.
\<close>

datatype PathSegment = Key string | Index nat

datatype ZodIssue =
    InvalidType "PathSegment list" string string
  | TooSmall "PathSegment list" string int
  | TooBig "PathSegment list" string int

definition zodError :: "(ZodIssue list \<Rightarrow> string) \<Rightarrow> ZodIssue list \<Rightarrow> Exn" where
  "zodError issueText issues = ZodError (issueText issues)"

text \<open>The type zod reports as received, for a value of a JSON body.\<close>

definition parsedType :: "string Json option \<Rightarrow> string" where
  "parsedType v =
     (case v of
        None \<Rightarrow> ''undefined''
      | Some JNull \<Rightarrow> ''null''
      | Some (JBool b) \<Rightarrow> ''boolean''
      | Some (JNumber n) \<Rightarrow> ''number''
      | Some (JString s) \<Rightarrow> ''string''
      | Some (JArray xs) \<Rightarrow> ''array''
      | Some (JObject kvs) \<Rightarrow> ''object'')"

text \<open>\<open>chatMessageSchema = z.object({message: z.string().min(1), sessionId: z.string().optional()})\<close>\<close>

definition chatMessageSchema_parse ::
    "(ZodIssue list \<Rightarrow> string) \<Rightarrow> string Json option \<Rightarrow> Exn + string \<times> string option" where
  "chatMessageSchema_parse issueText b =
     (case b of
        Some (JObject kvs) \<Rightarrow>
          (let messageIssues =
                 (case map_of kvs ''message'' of
                    Some (JString s) \<Rightarrow>
                      if length s \<ge> 1 then [] else [TooSmall [Key ''message''] ''string'' 1]
                  | v \<Rightarrow> [InvalidType [Key ''message''] ''string'' (parsedType v)]);
               sessionIssues =
                 (case map_of kvs ''sessionId'' of
                    None \<Rightarrow> []
                  | Some (JString s) \<Rightarrow> []
                  | v \<Rightarrow> [InvalidType [Key ''sessionId''] ''string'' (parsedType v)]);
               issues = messageIssues @ sessionIssues
           in if issues = []
              then Inr (stringValue (map_of kvs ''message''),
                        (case map_of kvs ''sessionId'' of Some (JString s) \<Rightarrow> Some s | _ \<Rightarrow> None))
              else Inl (zodError issueText issues))
      | _ \<Rightarrow> Inl (zodError issueText [InvalidType [] ''object'' (parsedType b)]))"

text \<open>
  A value of \<open>req.query\<close>: a string, an array, or a nested object. \<open>parseInt\<close> reads the
  string form of the value: leading white space, a sign, then decimal digits or, after
  \<open>0x\<close>, hex digits; \<open>None\<close> is \<open>NaN\<close>.
\<close>

datatype QueryValue = QString string | QArray "QueryValue list" | QObject

record AuditLogQuery =
  qFrom :: "QueryValue option"
  qTo :: "QueryValue option"
  qEvents :: "QueryValue option"
  qExcludeEvents :: "QueryValue option"
  qSize :: "QueryValue option"
  qCursor :: "QueryValue option"
  qSearch :: "QueryValue option"

fun queryString :: "QueryValue \<Rightarrow> string" where
  "queryString (QString s) = s"
| "queryString (QArray xs) = join '','' (map queryString xs)"
| "queryString QObject = ''[object Object]''"

definition parseInt :: "string \<Rightarrow> int option" where
  "parseInt s =
     (let s1 = dropWhile isWhiteSpace s;
          negative = (take 1 s1 = ''-'');
          s2 = (if take 1 s1 = ''-'' \<or> take 1 s1 = ''+'' then drop 1 s1 else s1);
          hex = (take 2 s2 = ''0x'' \<or> take 2 s2 = ''0X'');
          ds = (if hex then takeWhile (\<lambda>c. hexValue c \<noteq> None) (drop 2 s2) else takeWhile isDigit s2);
          v = foldl (\<lambda>v c. (if hex then 16 else 10) * v + int (case hexValue c of None \<Rightarrow> 0 | Some d \<Rightarrow> d)) 0 ds
      in if ds = [] then None else Some (if negative then - v else v))"

record AuditLogFilters =
  fFrom :: "string option"
  fTo :: "string option"
  fEvents :: "string list"
  fExcludeEvents :: "string list"
  fSize :: int
  fCursor :: "string option"
  fSearch :: "string option"

definition queryArray :: "QueryValue option \<Rightarrow> QueryValue list" where
  "queryArray v =
     (case v of
        None \<Rightarrow> []
      | Some (QArray xs) \<Rightarrow> xs
      | Some (QString s) \<Rightarrow> if s \<noteq> [] then [QString s] else []
      | Some QObject \<Rightarrow> [QObject])"

definition querySize :: "QueryValue option \<Rightarrow> int option" where
  "querySize v =
     (case v of
        None \<Rightarrow> Some 50
      | Some (QString s) \<Rightarrow> if s \<noteq> [] then parseInt s else Some 50
      | Some q \<Rightarrow> parseInt (queryString q))"

definition queryType :: "QueryValue \<Rightarrow> string" where
  "queryType q = (case q of QString s \<Rightarrow> ''string'' | QArray xs \<Rightarrow> ''array'' | QObject \<Rightarrow> ''object'')"

definition optionalStringIssues :: "string \<Rightarrow> QueryValue option \<Rightarrow> ZodIssue list" where
  "optionalStringIssues path v =
     (case v of
        None \<Rightarrow> []
      | Some (QString s) \<Rightarrow> []
      | Some q \<Rightarrow> [InvalidType [Key path] ''string'' (queryType q)])"

definition stringArrayIssues :: "string \<Rightarrow> QueryValue list \<Rightarrow> ZodIssue list" where
  "stringArrayIssues path xs =
     concat (map (\<lambda>(i, x). case x of
                              QString s \<Rightarrow> []
                            | _ \<Rightarrow> [InvalidType [Key path, Index i] ''string'' (queryType x)])
               (enumerate 0 xs))"

definition sizeIssues :: "int option \<Rightarrow> ZodIssue list" where
  "sizeIssues v =
     (case v of
        None \<Rightarrow> [InvalidType [Key ''size''] ''number'' ''nan'']
      | Some n \<Rightarrow> (if n < 1 then [TooSmall [Key ''size''] ''number'' 1] else [])
                  @ (if n > 100 then [TooBig [Key ''size''] ''number'' 100] else []))"

definition queryText :: "QueryValue option \<Rightarrow> string option" where
  "queryText v = (case v of Some (QString s) \<Rightarrow> Some s | _ \<Rightarrow> None)"

text \<open>
  \<open>auditLogFilterSchema.parse(queryParams)\<close>, with \<open>queryParams\<close> built from the query as
  the handler builds it.
\<close>

definition auditLogFilterSchema_parse ::
    "(ZodIssue list \<Rightarrow> string) \<Rightarrow> AuditLogQuery \<Rightarrow> Exn + AuditLogFilters" where
  "auditLogFilterSchema_parse issueText q =
     (let events = queryArray (qEvents q);
          excludeEvents = queryArray (qExcludeEvents q);
          size = querySize (qSize q);
          issues = optionalStringIssues ''from'' (qFrom q) @ optionalStringIssues ''to'' (qTo q)
                   @ stringArrayIssues ''events'' events
                   @ stringArrayIssues ''excludeEvents'' excludeEvents
                   @ sizeIssues size
                   @ optionalStringIssues ''cursor'' (qCursor q)
                   @ optionalStringIssues ''search'' (qSearch q)
      in if issues = []
         then Inr \<lparr>fFrom = queryText (qFrom q), fTo = queryText (qTo q),
                   fEvents = map queryString events, fExcludeEvents = map queryString excludeEvents,
                   fSize = (case size of None \<Rightarrow> 50 | Some n \<Rightarrow> n),
                   fCursor = queryText (qCursor q), fSearch = queryText (qSearch q)\<rparr>
         else Inl (zodError issueText issues))"

subsection \<open>GET /api/audit-logs\<close>

text \<open>
  The handler up to its call of the upstream API: it answers itself, or goes on to query
  the organization or group audit logs with the filters below (and then stores and returns
  what the upstream API sends). \<open>toISO\<close> is \<open>new Date(s).toISOString()\<close>, \<open>None\<close> where it
  throws a \<open>RangeError\<close> for an invalid date.
\<close>

record SnykFilters =
  sFrom :: "string option"
  sTo :: "string option"
  sEvents :: "string list"
  sExcludeEvents :: "string list"
  sSize :: int
  sCursor :: "string option"
  sSearch :: "string option"

datatype UpstreamQuery =
    OrganizationAuditLogs string string string SnykFilters
  | GroupAuditLogs string string string SnykFilters

definition formatDate :: "(string \<Rightarrow> string option) \<Rightarrow> string option \<Rightarrow> Exn + string option" where
  "formatDate toISO v =
     (case v of
        None \<Rightarrow> Inr None
      | Some s \<Rightarrow>
          if s = [] then Inr None
          else (case toISO s of
                  None \<Rightarrow> Inl (Error ''Invalid time value'')
                | Some isoText \<Rightarrow> Inr (Some isoText)))"

definition GET_api_audit_logs ::
    "(ZodIssue list \<Rightarrow> string) \<Rightarrow> (string \<Rightarrow> string option) \<Rightarrow> int \<Rightarrow> nat list \<Rightarrow> string option
      \<Rightarrow> AuditLogQuery \<Rightarrow> sessions \<Rightarrow> (Response + UpstreamQuery) \<times> sessions \<times> CookieOp list" where
  "GET_api_audit_logs issueText toISO now rnd cookie q ss =
     (case auditLogFilterSchema_parse issueText q of
        Inl e \<Rightarrow> (Inl (errorResponse 500 (errorMessage e)), ss, [])
      | Inr filters \<Rightarrow>
          (case getApiConfiguration now rnd cookie ss of
             (None, ss1, out) \<Rightarrow>
               (Inl (errorResponse 400 ''Snyk API not configured or session expired''), ss1, out)
           | (Some (cfg, sessionId), ss1, out) \<Rightarrow>
               if snykApiToken cfg = []
               then (Inl (errorResponse 400 ''Snyk API not configured or session expired''), ss1, out)
               else (let version = (if apiVersion cfg \<noteq> None \<and> apiVersion cfg \<noteq> Some []
                                    then the (apiVersion cfg) else ''2024-10-15'')
                     in case (formatDate toISO (fFrom filters), formatDate toISO (fTo filters)) of
                          (Inl e, _) \<Rightarrow> (Inl (errorResponse 500 (errorMessage e)), ss1, out)
                        | (Inr fromIso, Inl e) \<Rightarrow> (Inl (errorResponse 500 (errorMessage e)), ss1, out)
                        | (Inr fromIso, Inr toIso) \<Rightarrow>
                            (let snykFilters =
                                   \<lparr>sFrom = fromIso, sTo = toIso, sEvents = fEvents filters,
                                    sExcludeEvents = fExcludeEvents filters, sSize = fSize filters,
                                    sCursor = fCursor filters, sSearch = fSearch filters\<rparr>
                             in if orgId cfg \<noteq> None \<and> orgId cfg \<noteq> Some []
                                then (Inr (OrganizationAuditLogs (the (orgId cfg)) (snykApiToken cfg)
                                             version snykFilters), ss1, out)
                                else if groupId cfg \<noteq> None \<and> groupId cfg \<noteq> Some []
                                then (Inr (GroupAuditLogs (the (groupId cfg)) (snykApiToken cfg)
                                             version snykFilters), ss1, out)
                                else (Inl (errorResponse 400 ''No organization or group ID configured''),
                                      ss1, out)))))"

subsection \<open>POST /api/chat\<close>

text \<open>
  The in-memory storage of audit logs and chat sessions, and the server state. The handler
  takes the UUID a new chat session would get and the two timestamps of the messages.
\<close>

record ChatSession =
  csId :: string
  csUserId :: "string option"
  csMessages :: "ChatMessage list"

record Server =
  sessionStore :: sessions
  storedLogs :: "AuditLog list"
  chatSessions :: "string \<rightharpoonup> ChatSession"

definition messageJson :: "ChatMessage \<Rightarrow> string Json" where
  "messageJson m =
     JObject [(''role'', JString (chatRole m)), (''content'', JString (chatContent m)),
              (''timestamp'', JString (timestamp m))]"

definition POST_api_chat ::
    "(ZodIssue list \<Rightarrow> string) \<Rightarrow> Network \<Rightarrow> (AuditLog list \<Rightarrow> string) \<Rightarrow> int \<Rightarrow> nat list \<Rightarrow> string
      \<Rightarrow> string \<times> string \<Rightarrow> string option \<Rightarrow> string Json option \<Rightarrow> Server
      \<Rightarrow> Response \<times> Server \<times> CookieOp list \<times> Effect list" where
  "POST_api_chat issueText net stringify now rnd uuid stamps cookie b srv =
     (case chatMessageSchema_parse issueText b of
        Inl e \<Rightarrow> (errorResponse 500 (errorMessage e), srv, [], [])
      | Inr (message, sessionId) \<Rightarrow>
          (let auditLogs = storedLogs srv;
               found = (case sessionId of
                          None \<Rightarrow> None
                        | Some s \<Rightarrow> if s \<noteq> [] then chatSessions srv s else None);
               session = (case found of
                            Some cs \<Rightarrow> cs
                          | None \<Rightarrow> \<lparr>csId = uuid, csUserId = Some ''default'', csMessages = []\<rparr>);
               chats1 = (case found of
                           Some cs \<Rightarrow> chatSessions srv
                         | None \<Rightarrow> (chatSessions srv)(uuid \<mapsto> session));
               userMessage = \<lparr>chatRole = ''user'', chatContent = message, timestamp = fst stamps\<rparr>;
               currentMessages = csMessages session
           in case getLlmConfiguration now rnd cookie (sessionStore srv) of
                (llmResult, ss1, out) \<Rightarrow>
                  (case chatWithAI net stringify message auditLogs currentMessages
                          (map_option fst llmResult) of
                     (aiResponse, eff) \<Rightarrow>
                       (let assistantMessage =
                              \<lparr>chatRole = ''assistant'', chatContent = aiResponse, timestamp = snd stamps\<rparr>;
                            updatedMessages = currentMessages @ [userMessage, assistantMessage]
                        in (jsonResponse (JObject
                              [(''sessionId'', JString (csId session)),
                               (''response'', JString aiResponse),
                               (''messages'', JArray (map messageJson updatedMessages))]),
                            srv\<lparr>sessionStore := ss1,
                                chatSessions := chats1(csId session \<mapsto>
                                                  session\<lparr>csMessages := updatedMessages\<rparr>)\<rparr>,
                            out, eff)))))"

text \<open>A store with one session that holds both kinds of configuration, for concrete runs.\<close>

definition demoSnykConfig :: SnykConfig where
  "demoSnykConfig = \<lparr>snykApiToken = ''tok'', groupId = None, orgId = Some ''org'',
                      apiVersion = Some ''2024-10-15''\<rparr>"

definition demoLlmConfig :: LLMConfig where
  "demoLlmConfig = \<lparr>provider = ''openai'', model = ''gpt-4o-mini'', apiKey = ''sk-test'',
                     baseUrl = None\<rparr>"

definition demoSession :: CookieSession where
  "demoSession =
     \<lparr>id_session = ''s1'',
      snykConfig = Some \<lparr>config = demoSnykConfig, expiresAt = 1800000\<rparr>,
      llmConfig = Some \<lparr>config = demoLlmConfig, expiresAt = 1800000\<rparr>,
      createdAt = 0, lastAccessed = 0\<rparr>"

definition demoSessions :: sessions where
  "demoSessions = [''s1'' \<mapsto> demoSession]"

definition demoServer :: Server where
  "demoServer = \<lparr>sessionStore = demoSessions, storedLogs = [], chatSessions = Map.empty\<rparr>"

text \<open>The same store with other secrets, and request bodies for concrete runs.\<close>

definition otherSecretsSessions :: sessions where
  "otherSecretsSessions =
     [''s1'' \<mapsto> demoSession
        \<lparr>snykConfig := Some \<lparr>config = demoSnykConfig\<lparr>snykApiToken := ''other-token''\<rparr>,
                              expiresAt = 1800000\<rparr>,
         llmConfig := Some \<lparr>config = demoLlmConfig\<lparr>apiKey := ''sk-other''\<rparr>,
                             expiresAt = 1800000\<rparr>\<rparr>]"

definition demoConfigBody :: ConfigBody where
  "demoConfigBody = \<lparr>bodyToken = Some ''tok'', bodyGroupId = None, bodyOrgId = Some ''org'',
                      bodyApiVersion = None\<rparr>"

definition demoLlmBody :: LlmConfigBody where
  "demoLlmBody = \<lparr>bodyProvider = Some (JString ''openai''), bodyModel = Some (JString ''gpt-4o-mini''),
                   bodyApiKey = Some (JString ''sk-test''), bodyBaseUrl = None\<rparr>"

definition blankProviderBody :: LlmConfigBody where
  "blankProviderBody = \<lparr>bodyProvider = Some (JString ''  ''), bodyModel = Some (JString ''gpt-4o-mini''),
                         bodyApiKey = Some (JString ''sk-test''), bodyBaseUrl = None\<rparr>"

definition acceptAll :: "string \<Rightarrow> string \<Rightarrow> bool \<times> string" where
  "acceptAll token version = (True, ''Connection successful'')"

section \<open>Session store: basic facts\<close>

lemma generateSessionId_nonempty: "generateSessionId now rnd \<noteq> []"
  by (simp add: generateSessionId_def toString36_def)

lemma createSession_present:
  "createSession now rnd ss = (sid, ss1, out) \<Longrightarrow> sid \<noteq> [] \<and> ss1 sid \<noteq> None"
  by (auto simp: createSession_def Let_def generateSessionId_nonempty)

lemma getOrCreateSessionId_present:
  "getOrCreateSessionId now rnd cookie ss = (sid, ss1, out) \<Longrightarrow> sid \<noteq> [] \<and> ss1 sid \<noteq> None"
  by (auto simp: getOrCreateSessionId_def dest: createSession_present
           split: option.splits if_splits)

lemma getOrCreateSessionId_live:
  assumes "ss sid = Some sess" and "sid \<noteq> []" and "now - lastAccessed sess \<le> SESSION_TIMEOUT"
  shows "getOrCreateSessionId now rnd (Some sid) ss = (sid, ss(sid \<mapsto> sess\<lparr>lastAccessed := now\<rparr>), [])"
  using assms by (simp add: getOrCreateSessionId_def)

lemma getOrCreateSessionId_idle:
  assumes "ss sid = Some sess" and "sid \<noteq> []" and "now - lastAccessed sess > SESSION_TIMEOUT"
  shows "getOrCreateSessionId now rnd (Some sid) ss = createSession now rnd (ss(sid := None))"
  using assms by (simp add: getOrCreateSessionId_def)

lemma setApiConfiguration_result:
  assumes "setApiConfiguration t0 rnd cookie cfg T ss = Inr (sid, ss1, out)"
  shows "sid \<noteq> [] \<and> (\<exists>sess. ss1 sid = Some sess \<and> lastAccessed sess = t0
           \<and> snykConfig sess = Some \<lparr>config = cfg, expiresAt = t0 + T * 60 * 1000\<rparr>)"
proof -
  obtain s a o' where g: "getOrCreateSessionId t0 rnd cookie ss = (s, a, o')"
    by (cases "getOrCreateSessionId t0 rnd cookie ss") auto
  from getOrCreateSessionId_present [OF g] obtain sess0 where p: "s \<noteq> []" "a s = Some sess0"
    by auto
  have la: "lastAccessed sess0 = t0"
    using g p
    by (auto simp: getOrCreateSessionId_def createSession_def Let_def
             split: option.splits if_splits)
  from assms g p la show ?thesis
    by (auto simp: setApiConfiguration_def)
qed

lemma setLlmConfiguration_result:
  assumes "setLlmConfiguration t0 rnd cookie cfg T ss = Inr (sid, ss1, out)"
  shows "sid \<noteq> [] \<and> (\<exists>sess. ss1 sid = Some sess \<and> lastAccessed sess = t0
           \<and> llmConfig sess = Some \<lparr>config = cfg, expiresAt = t0 + T * 60 * 1000\<rparr>)"
proof -
  obtain s a o' where g: "getOrCreateSessionId t0 rnd cookie ss = (s, a, o')"
    by (cases "getOrCreateSessionId t0 rnd cookie ss") auto
  from getOrCreateSessionId_present [OF g] obtain sess0 where p: "s \<noteq> []" "a s = Some sess0"
    by auto
  have la: "lastAccessed sess0 = t0"
    using g p
    by (auto simp: getOrCreateSessionId_def createSession_def Let_def
             split: option.splits if_splits)
  from assms g p la show ?thesis
    by (auto simp: setLlmConfiguration_def)
qed

lemma setApiConfiguration_total:
  "\<exists>sid ss1 out. setApiConfiguration t0 rnd cookie cfg T ss = Inr (sid, ss1, out)"
proof -
  obtain s a o' where g: "getOrCreateSessionId t0 rnd cookie ss = (s, a, o')"
    by (cases "getOrCreateSessionId t0 rnd cookie ss") auto
  from getOrCreateSessionId_present [OF g] g show ?thesis
    by (auto simp: setApiConfiguration_def)
qed

lemma setLlmConfiguration_total:
  "\<exists>sid ss1 out. setLlmConfiguration t0 rnd cookie cfg T ss = Inr (sid, ss1, out)"
proof -
  obtain s a o' where g: "getOrCreateSessionId t0 rnd cookie ss = (s, a, o')"
    by (cases "getOrCreateSessionId t0 rnd cookie ss") auto
  from getOrCreateSessionId_present [OF g] g show ?thesis
    by (auto simp: setLlmConfiguration_def)
qed

lemma getApiConfiguration_after:
  assumes "ss1 sid = Some sess" and "sid \<noteq> []" and "lastAccessed sess = t0"
    and "snykConfig sess = Some \<lparr>config = cfg, expiresAt = x\<rparr>"
  shows "fst (getApiConfiguration (t0 + e) rnd (Some sid) ss1) =
           (if e \<le> SESSION_TIMEOUT \<and> t0 + e \<le> x then Some (cfg, sid) else None)"
proof (cases "e \<le> SESSION_TIMEOUT")
  case True
  then have "getOrCreateSessionId (t0 + e) rnd (Some sid) ss1
               = (sid, ss1(sid \<mapsto> sess\<lparr>lastAccessed := t0 + e\<rparr>), [])"
    using assms by (intro getOrCreateSessionId_live) auto
  then show ?thesis
    using True assms by (simp add: getApiConfiguration_def)
next
  case False
  then have "getOrCreateSessionId (t0 + e) rnd (Some sid) ss1
               = createSession (t0 + e) rnd (ss1(sid := None))"
    using assms by (intro getOrCreateSessionId_idle) auto
  then show ?thesis
    using False by (simp add: getApiConfiguration_def createSession_def Let_def)
qed

lemma getLlmConfiguration_after:
  assumes "ss1 sid = Some sess" and "sid \<noteq> []" and "lastAccessed sess = t0"
    and "llmConfig sess = Some \<lparr>config = cfg, expiresAt = x\<rparr>"
  shows "fst (getLlmConfiguration (t0 + e) rnd (Some sid) ss1) =
           (if e \<le> SESSION_TIMEOUT \<and> t0 + e \<le> x then Some (cfg, sid) else None)"
proof (cases "e \<le> SESSION_TIMEOUT")
  case True
  then have "getOrCreateSessionId (t0 + e) rnd (Some sid) ss1
               = (sid, ss1(sid \<mapsto> sess\<lparr>lastAccessed := t0 + e\<rparr>), [])"
    using assms by (intro getOrCreateSessionId_live) auto
  then show ?thesis
    using True assms by (simp add: getLlmConfiguration_def)
next
  case False
  then have "getOrCreateSessionId (t0 + e) rnd (Some sid) ss1
               = createSession (t0 + e) rnd (ss1(sid := None))"
    using assms by (intro getOrCreateSessionId_idle) auto
  then show ?thesis
    using False by (simp add: getLlmConfiguration_def createSession_def Let_def)
qed

section \<open>C1: time to live of a stored configuration\<close>

text \<open>
  C1 (amended). For every store, request and configuration kind, \<open>setConfig\<close> with a TTL of
  \<open>T\<close> minutes at time \<open>t0\<close> succeeds and returns a session id; a \<open>getConfig\<close> for that
  session id as the next request, \<open>e\<close> milliseconds later, returns the stored payload
  (without the expiry field) exactly when \<open>e\<close> is at most \<open>T\<close> minutes and at most the
  30 minutes of the session idle timeout, and returns absent otherwise.
\<close>

theorem getConfig_after_setConfig:
  "(\<exists>sid ss1 out. setApiConfiguration t0 rnd cookie cfg T ss = Inr (sid, ss1, out) \<and>
      (\<forall>e rnd'. fst (getApiConfiguration (t0 + e) rnd' (Some sid) ss1) =
         (if e \<le> T * 60 * 1000 \<and> e \<le> SESSION_TIMEOUT then Some (cfg, sid) else None)))
   \<and> (\<exists>sid ss1 out. setLlmConfiguration t0 rnd cookie lcfg T ss = Inr (sid, ss1, out) \<and>
      (\<forall>e rnd'. fst (getLlmConfiguration (t0 + e) rnd' (Some sid) ss1) =
         (if e \<le> T * 60 * 1000 \<and> e \<le> SESSION_TIMEOUT then Some (lcfg, sid) else None)))"
proof (intro conjI)
  obtain sid ss1 out where s: "setApiConfiguration t0 rnd cookie cfg T ss = Inr (sid, ss1, out)"
    using setApiConfiguration_total by blast
  from setApiConfiguration_result [OF s] obtain sess where
    r: "sid \<noteq> []" "ss1 sid = Some sess" "lastAccessed sess = t0"
       "snykConfig sess = Some \<lparr>config = cfg, expiresAt = t0 + T * 60 * 1000\<rparr>"
    by blast
  have "fst (getApiConfiguration (t0 + e) rnd' (Some sid) ss1) =
         (if e \<le> T * 60 * 1000 \<and> e \<le> SESSION_TIMEOUT then Some (cfg, sid) else None)" for e rnd'
    using r getApiConfiguration_after [where ?ss1.0 = ss1 and sid = sid and sess = sess and e = e and rnd = rnd'] by auto
  with s show "\<exists>sid ss1 out. setApiConfiguration t0 rnd cookie cfg T ss = Inr (sid, ss1, out) \<and>
      (\<forall>e rnd'. fst (getApiConfiguration (t0 + e) rnd' (Some sid) ss1) =
         (if e \<le> T * 60 * 1000 \<and> e \<le> SESSION_TIMEOUT then Some (cfg, sid) else None))"
    by blast
next
  obtain sid ss1 out where s: "setLlmConfiguration t0 rnd cookie lcfg T ss = Inr (sid, ss1, out)"
    using setLlmConfiguration_total by blast
  from setLlmConfiguration_result [OF s] obtain sess where
    r: "sid \<noteq> []" "ss1 sid = Some sess" "lastAccessed sess = t0"
       "llmConfig sess = Some \<lparr>config = lcfg, expiresAt = t0 + T * 60 * 1000\<rparr>"
    by blast
  have "fst (getLlmConfiguration (t0 + e) rnd' (Some sid) ss1) =
         (if e \<le> T * 60 * 1000 \<and> e \<le> SESSION_TIMEOUT then Some (lcfg, sid) else None)" for e rnd'
    using r getLlmConfiguration_after [where ?ss1.0 = ss1 and sid = sid and sess = sess and e = e and rnd = rnd'] by auto
  with s show "\<exists>sid ss1 out. setLlmConfiguration t0 rnd cookie lcfg T ss = Inr (sid, ss1, out) \<and>
      (\<forall>e rnd'. fst (getLlmConfiguration (t0 + e) rnd' (Some sid) ss1) =
         (if e \<le> T * 60 * 1000 \<and> e \<le> SESSION_TIMEOUT then Some (lcfg, sid) else None))"
    by blast
qed

lemma generateSessionId_zero: "generateSessionId 0 [] = ''0-''"
  by (simp add: generateSessionId_def toString36_def digits36.simps [of 0] digitChar_def
                toHex_def char_of_def)

text \<open>
  C1, as stated, fails twice. A sub-record set with a TTL of 30 minutes is still returned at an
  elapsed time of exactly 30 minutes (the test is \<open>now > expiresAt\<close>); and a sub-record set
  with a TTL of 60 minutes is absent after 45 idle minutes, because the session itself has
  timed out.
\<close>

theorem ttl_boundary_counterexample:
  "fst (getApiConfiguration (0 + 30 * 60 * 1000) [] (Some ''0-'')
         (fst (snd (projr (setApiConfiguration 0 [] None demoSnykConfig 30 Map.empty)))))
     = Some (demoSnykConfig, ''0-'')
   \<and> fst (getApiConfiguration (0 + 45 * 60 * 1000) [] (Some ''0-'')
         (fst (snd (projr (setApiConfiguration 0 [] None demoSnykConfig 60 Map.empty)))))
     = None"
  by (simp add: getApiConfiguration_def setApiConfiguration_def getOrCreateSessionId_def
        createSession_def generateSessionId_zero SESSION_TIMEOUT_def Let_def)

section \<open>C2: the two configuration kinds\<close>

lemma getOrCreateSessionId_cases:
  assumes "getOrCreateSessionId now rnd cookie ss = (sid, ss0, out)"
  shows "(\<exists>sess. cookie = Some sid \<and> sid \<noteq> [] \<and> ss sid = Some sess
              \<and> now - lastAccessed sess \<le> SESSION_TIMEOUT
              \<and> ss0 = ss(sid \<mapsto> sess\<lparr>lastAccessed := now\<rparr>) \<and> out = [])
       \<or> (sid = generateSessionId now rnd
              \<and> ss0 sid = Some \<lparr>id_session = sid, snykConfig = None, llmConfig = None,
                                   createdAt = now, lastAccessed = now\<rparr>
              \<and> out = [SetCookie sid]
              \<and> (\<forall>c sess. cookie = Some c \<and> c \<noteq> [] \<and> ss c = Some sess
                     \<longrightarrow> now - lastAccessed sess > SESSION_TIMEOUT))"
  using assms
  by (auto simp: getOrCreateSessionId_def createSession_def Let_def
           split: option.splits if_splits)

lemma getOrCreateSessionId_touched:
  assumes "getOrCreateSessionId now rnd cookie ss = (sid, ss0, out)"
  shows "sid \<noteq> [] \<and> (\<exists>s. ss0 sid = Some s \<and> lastAccessed s = now)"
  using getOrCreateSessionId_cases [OF assms]
  by (auto simp: generateSessionId_nonempty)

lemma getApiConfiguration_view:
  assumes "sid \<noteq> []" and "a sid = Some s" and "b sid = Some s'"
    and "snykConfig s = snykConfig s'" and "lastAccessed s = lastAccessed s'"
  shows "fst (getApiConfiguration t r (Some sid) a) = fst (getApiConfiguration t r (Some sid) b)"
  using assms
  by (auto simp: getApiConfiguration_def getOrCreateSessionId_def createSession_def Let_def
           split: option.splits)

lemma getLlmConfiguration_view:
  assumes "sid \<noteq> []" and "a sid = Some s" and "b sid = Some s'"
    and "llmConfig s = llmConfig s'" and "lastAccessed s = lastAccessed s'"
  shows "fst (getLlmConfiguration t r (Some sid) a) = fst (getLlmConfiguration t r (Some sid) b)"
  using assms
  by (auto simp: getLlmConfiguration_def getOrCreateSessionId_def createSession_def Let_def
           split: option.splits)

lemma getApiConfiguration_touch:
  assumes "getOrCreateSessionId now rnd cookie ss = (sid, ss0, out)"
  shows "fst (getApiConfiguration now r (Some sid) ss0) = fst (getApiConfiguration now r cookie ss)"
  using getOrCreateSessionId_cases [OF assms]
  by (auto simp: getApiConfiguration_def getOrCreateSessionId_def createSession_def Let_def
           generateSessionId_nonempty SESSION_TIMEOUT_def split: option.splits)

lemma getLlmConfiguration_touch:
  assumes "getOrCreateSessionId now rnd cookie ss = (sid, ss0, out)"
  shows "fst (getLlmConfiguration now r (Some sid) ss0) = fst (getLlmConfiguration now r cookie ss)"
  using getOrCreateSessionId_cases [OF assms]
  by (auto simp: getLlmConfiguration_def getOrCreateSessionId_def createSession_def Let_def
           generateSessionId_nonempty SESSION_TIMEOUT_def split: option.splits)

lemma getLlmConfiguration_none:
  assumes "sid \<noteq> []" and "a sid = None \<or> (\<exists>s. a sid = Some s \<and> llmConfig s = None)"
  shows "fst (getLlmConfiguration t r (Some sid) a) = None"
  using assms
  by (auto simp: getLlmConfiguration_def getOrCreateSessionId_def createSession_def Let_def
           split: option.splits)

lemma getApiConfiguration_none:
  assumes "sid \<noteq> []" and "a sid = None \<or> (\<exists>s. a sid = Some s \<and> snykConfig s = None)"
  shows "fst (getApiConfiguration t r (Some sid) a) = None"
  using assms
  by (auto simp: getApiConfiguration_def getOrCreateSessionId_def createSession_def Let_def
           split: option.splits)

text \<open>
  C2 (amended). Every operation of the store first looks the session of the request up,
  creating one when the cookie names none that is live; the lookup leaves the session \<open>sid\<close>
  in the store \<open>ss0\<close>, and on a live session it keeps the session and both sub-records.
  For every store and every cookie: setting the LLM configuration leaves the upstream
  sub-record of the session as the lookup left it, so that \<open>getApiConfiguration\<close> returns
  at every later time what it returns without the set, and at the same instant what it
  returns on the store before the set; setting the upstream configuration does the same
  for the LLM sub-record. Clearing the LLM configuration removes the LLM sub-record, which
  \<open>getLlmConfiguration\<close> no longer returns, and leaves the upstream sub-record as it was and
  as retrievable as before. Clearing the upstream configuration removes the whole session:
  neither kind is retrievable afterwards.
\<close>

theorem config_kinds_independent:
  assumes "getOrCreateSessionId now rnd cookie ss = (sid, ss0, out)"
  shows "(cookie = Some c \<and> c \<noteq> [] \<and> ss c = Some sess \<and> now - lastAccessed sess \<le> SESSION_TIMEOUT
            \<longrightarrow> sid = c \<and> ss0 c = Some (sess\<lparr>lastAccessed := now\<rparr>))
       \<and> (\<exists>ss1. setLlmConfiguration now rnd cookie lcfg T ss = Inr (sid, ss1, out)
            \<and> map_option snykConfig (ss1 sid) = map_option snykConfig (ss0 sid)
            \<and> (\<forall>t r. fst (getApiConfiguration t r (Some sid) ss1)
                        = fst (getApiConfiguration t r (Some sid) ss0))
            \<and> (\<forall>r. fst (getApiConfiguration now r (Some sid) ss1)
                      = fst (getApiConfiguration now r cookie ss)))
       \<and> (\<exists>ss1. setApiConfiguration now rnd cookie cfg T ss = Inr (sid, ss1, out)
            \<and> map_option llmConfig (ss1 sid) = map_option llmConfig (ss0 sid)
            \<and> (\<forall>t r. fst (getLlmConfiguration t r (Some sid) ss1)
                        = fst (getLlmConfiguration t r (Some sid) ss0))
            \<and> (\<forall>r. fst (getLlmConfiguration now r (Some sid) ss1)
                      = fst (getLlmConfiguration now r cookie ss)))
       \<and> (\<exists>ss1. clearLlmConfiguration now rnd cookie ss = (ss1, out)
            \<and> map_option llmConfig (ss1 sid) = Some None
            \<and> (\<forall>t r. fst (getLlmConfiguration t r (Some sid) ss1) = None)
            \<and> map_option snykConfig (ss1 sid) = map_option snykConfig (ss0 sid)
            \<and> (\<forall>t r. fst (getApiConfiguration t r (Some sid) ss1)
                        = fst (getApiConfiguration t r (Some sid) ss0))
            \<and> (\<forall>r. fst (getApiConfiguration now r (Some sid) ss1)
                      = fst (getApiConfiguration now r cookie ss)))
       \<and> (\<exists>ss2. clearConfiguration now rnd cookie ss = (ss2, out @ [ClearCookie])
            \<and> ss2 sid = None
            \<and> (\<forall>t r. fst (getLlmConfiguration t r (Some sid) ss2) = None)
            \<and> (\<forall>t r. fst (getApiConfiguration t r (Some sid) ss2) = None))"
proof -
  from getOrCreateSessionId_touched [OF assms] obtain s0 where
    n: "sid \<noteq> []" and p: "ss0 sid = Some s0" and la: "lastAccessed s0 = now"
    by blast
  have live: "cookie = Some c \<and> c \<noteq> [] \<and> ss c = Some sess \<and> now - lastAccessed sess \<le> SESSION_TIMEOUT
            \<longrightarrow> sid = c \<and> ss0 c = Some (sess\<lparr>lastAccessed := now\<rparr>)"
    using assms by (auto simp: getOrCreateSessionId_def)
  have ta: "fst (getApiConfiguration now r (Some sid) ss0) = fst (getApiConfiguration now r cookie ss)" for r
    using assms by (rule getApiConfiguration_touch)
  have tl: "fst (getLlmConfiguration now r (Some sid) ss0) = fst (getLlmConfiguration now r cookie ss)" for r
    using assms by (rule getLlmConfiguration_touch)
  define a where "a = ss0(sid \<mapsto> s0\<lparr>llmConfig := Some \<lparr>config = lcfg, expiresAt = now + T * 60 * 1000\<rparr>\<rparr>)"
  have a1: "setLlmConfiguration now rnd cookie lcfg T ss = Inr (sid, a, out)"
    by (simp add: setLlmConfiguration_def assms p a_def)
  have a2: "map_option snykConfig (a sid) = map_option snykConfig (ss0 sid)"
    by (simp add: a_def p)
  have a3: "fst (getApiConfiguration t r (Some sid) a) = fst (getApiConfiguration t r (Some sid) ss0)" for t r
    by (rule getApiConfiguration_view [where s = "s0\<lparr>llmConfig := Some \<lparr>config = lcfg, expiresAt = now + T * 60 * 1000\<rparr>\<rparr>" and s' = s0])
       (simp_all add: n p a_def)
  have setLlm: "\<exists>ss1. setLlmConfiguration now rnd cookie lcfg T ss = Inr (sid, ss1, out)
            \<and> map_option snykConfig (ss1 sid) = map_option snykConfig (ss0 sid)
            \<and> (\<forall>t r. fst (getApiConfiguration t r (Some sid) ss1)
                        = fst (getApiConfiguration t r (Some sid) ss0))
            \<and> (\<forall>r. fst (getApiConfiguration now r (Some sid) ss1)
                      = fst (getApiConfiguration now r cookie ss))"
    using a1 a2 a3 ta by (intro exI [of _ a]) simp
  define b where "b = ss0(sid \<mapsto> s0\<lparr>snykConfig := Some \<lparr>config = cfg, expiresAt = now + T * 60 * 1000\<rparr>\<rparr>)"
  have b1: "setApiConfiguration now rnd cookie cfg T ss = Inr (sid, b, out)"
    by (simp add: setApiConfiguration_def assms p b_def)
  have b2: "map_option llmConfig (b sid) = map_option llmConfig (ss0 sid)"
    by (simp add: b_def p)
  have b3: "fst (getLlmConfiguration t r (Some sid) b) = fst (getLlmConfiguration t r (Some sid) ss0)" for t r
    by (rule getLlmConfiguration_view [where s = "s0\<lparr>snykConfig := Some \<lparr>config = cfg, expiresAt = now + T * 60 * 1000\<rparr>\<rparr>" and s' = s0])
       (simp_all add: n p b_def)
  have setApi: "\<exists>ss1. setApiConfiguration now rnd cookie cfg T ss = Inr (sid, ss1, out)
            \<and> map_option llmConfig (ss1 sid) = map_option llmConfig (ss0 sid)
            \<and> (\<forall>t r. fst (getLlmConfiguration t r (Some sid) ss1)
                        = fst (getLlmConfiguration t r (Some sid) ss0))
            \<and> (\<forall>r. fst (getLlmConfiguration now r (Some sid) ss1)
                      = fst (getLlmConfiguration now r cookie ss))"
    using b1 b2 b3 tl by (intro exI [of _ b]) simp
  define d where "d = ss0(sid \<mapsto> s0\<lparr>llmConfig := None\<rparr>)"
  have d1: "clearLlmConfiguration now rnd cookie ss = (d, out)"
    by (simp add: clearLlmConfiguration_def assms p d_def)
  have d2: "map_option llmConfig (d sid) = Some None"
    by (simp add: d_def)
  have d3: "fst (getLlmConfiguration t r (Some sid) d) = None" for t r
    by (rule getLlmConfiguration_none) (simp_all add: n d_def)
  have d4: "map_option snykConfig (d sid) = map_option snykConfig (ss0 sid)"
    by (simp add: d_def p)
  have d5: "fst (getApiConfiguration t r (Some sid) d) = fst (getApiConfiguration t r (Some sid) ss0)" for t r
    by (rule getApiConfiguration_view [where s = "s0\<lparr>llmConfig := None\<rparr>" and s' = s0])
       (simp_all add: n p d_def)
  have clearLlm: "\<exists>ss1. clearLlmConfiguration now rnd cookie ss = (ss1, out)
            \<and> map_option llmConfig (ss1 sid) = Some None
            \<and> (\<forall>t r. fst (getLlmConfiguration t r (Some sid) ss1) = None)
            \<and> map_option snykConfig (ss1 sid) = map_option snykConfig (ss0 sid)
            \<and> (\<forall>t r. fst (getApiConfiguration t r (Some sid) ss1)
                        = fst (getApiConfiguration t r (Some sid) ss0))
            \<and> (\<forall>r. fst (getApiConfiguration now r (Some sid) ss1)
                      = fst (getApiConfiguration now r cookie ss))"
    using d1 d2 d3 d4 d5 ta by (intro exI [of _ d]) simp
  define e where "e = ss0(sid := None)"
  have e1: "clearConfiguration now rnd cookie ss = (e, out @ [ClearCookie])"
    by (simp add: clearConfiguration_def assms p e_def Let_def)
  have e2: "e sid = None"
    by (simp add: e_def)
  have e3: "fst (getLlmConfiguration t r (Some sid) e) = None" for t r
    by (rule getLlmConfiguration_none) (simp_all add: n e_def)
  have e4: "fst (getApiConfiguration t r (Some sid) e) = None" for t r
    by (rule getApiConfiguration_none) (simp_all add: n e_def)
  have clearApi: "\<exists>ss2. clearConfiguration now rnd cookie ss = (ss2, out @ [ClearCookie])
            \<and> ss2 sid = None
            \<and> (\<forall>t r. fst (getLlmConfiguration t r (Some sid) ss2) = None)
            \<and> (\<forall>t r. fst (getApiConfiguration t r (Some sid) ss2) = None)"
    using e1 e2 e3 e4 by (intro exI [of _ e]) simp
  show ?thesis
    by (intro conjI) (rule live setLlm setApi clearLlm clearApi)+
qed

theorem config_kinds_independent_witness:
  "getOrCreateSessionId 60000 [] (Some ''s1'') demoSessions
     = (''s1'', demoSessions(''s1'' \<mapsto> demoSession\<lparr>lastAccessed := 60000\<rparr>), [])
   \<and> demoSessions ''s1'' = Some demoSession \<and> ''s1'' \<noteq> []
   \<and> 60000 - lastAccessed demoSession \<le> SESSION_TIMEOUT
   \<and> fst (getLlmConfiguration 60000 [] (Some ''s1'')
          (fst (clearLlmConfiguration 60000 [] (Some ''s1'') demoSessions))) = None
   \<and> fst (getApiConfiguration 60000 [] (Some ''s1'')
          (fst (clearLlmConfiguration 60000 [] (Some ''s1'') demoSessions)))
        = Some (demoSnykConfig, ''s1'')
   \<and> fst (clearConfiguration 60000 [] (Some ''s1'') demoSessions) ''s1'' = None"
proof -
  have live: "demoSessions ''s1'' = Some demoSession \<and> ''s1'' \<noteq> []
                \<and> 60000 - lastAccessed demoSession \<le> SESSION_TIMEOUT"
    by (simp add: demoSessions_def demoSession_def SESSION_TIMEOUT_def)
  have h: "getOrCreateSessionId 60000 [] (Some ''s1'') demoSessions
     = (''s1'', demoSessions(''s1'' \<mapsto> demoSession\<lparr>lastAccessed := 60000\<rparr>), [])"
    by (simp add: getOrCreateSessionId_def demoSessions_def demoSession_def SESSION_TIMEOUT_def)
  have g: "fst (getApiConfiguration 60000 [] (Some ''s1'') demoSessions) = Some (demoSnykConfig, ''s1'')"
    by (simp add: getApiConfiguration_def getOrCreateSessionId_def demoSessions_def demoSession_def
          SESSION_TIMEOUT_def)
  note th = config_kinds_independent
              [OF h, where c = "''s1''" and sess = demoSession and lcfg = demoLlmConfig
                 and cfg = demoSnykConfig and T = 30]
  from th obtain ss1 where
    c1: "clearLlmConfiguration 60000 [] (Some ''s1'') demoSessions = (ss1, [])"
    and c2: "\<forall>t r. fst (getLlmConfiguration t r (Some ''s1'') ss1) = None"
    and c3: "\<forall>r. fst (getApiConfiguration 60000 r (Some ''s1'') ss1)
                  = fst (getApiConfiguration 60000 r (Some ''s1'') demoSessions)"
    by (elim conjE exE) blast
  from th obtain ss2 where
    e1: "clearConfiguration 60000 [] (Some ''s1'') demoSessions = (ss2, [] @ [ClearCookie])"
    and e2: "ss2 ''s1'' = None"
    by (elim conjE exE) blast
  have "fst (getLlmConfiguration 60000 [] (Some ''s1'')
          (fst (clearLlmConfiguration 60000 [] (Some ''s1'') demoSessions))) = None
   \<and> fst (getApiConfiguration 60000 [] (Some ''s1'')
          (fst (clearLlmConfiguration 60000 [] (Some ''s1'') demoSessions)))
        = fst (getApiConfiguration 60000 [] (Some ''s1'') demoSessions)
   \<and> fst (clearConfiguration 60000 [] (Some ''s1'') demoSessions) ''s1'' = None"
    using c2 c3 e2 by (simp add: c1 e1)
  with h g live show ?thesis by simp
qed

text \<open>
  C2, as stated, fails for \<open>clearConfiguration\<close>: a live LLM sub-record is retrievable before
  the upstream configuration is cleared and absent afterwards.
\<close>

theorem clearConfig_counterexample:
  "fst (getLlmConfiguration 60000 [] (Some ''s1'') demoSessions) = Some (demoLlmConfig, ''s1'')
   \<and> fst (getLlmConfiguration 60000 [] (Some ''s1'')
          (fst (clearConfiguration 60000 [] (Some ''s1'') demoSessions))) = None"
  by (simp add: demoSessions_def demoSession_def getLlmConfiguration_def clearConfiguration_def
        getOrCreateSessionId_def createSession_def SESSION_TIMEOUT_def Let_def)

section \<open>Provider router and adapters: facts\<close>

lemma trim_Nil_iff: "trim s = [] \<longleftrightarrow> isBlank s"
proof
  assume "trim s = []"
  then have a: "\<forall>x \<in> set (dropWhile isWhiteSpace s). isWhiteSpace x"
    by (simp add: trim_def dropWhile_eq_Nil_conv)
  have "dropWhile isWhiteSpace s = []"
  proof (rule ccontr)
    assume n: "dropWhile isWhiteSpace s \<noteq> []"
    then have "\<not> isWhiteSpace (hd (dropWhile isWhiteSpace s))"
      by (rule hd_dropWhile)
    moreover have "hd (dropWhile isWhiteSpace s) \<in> set (dropWhile isWhiteSpace s)"
      using n by simp
    ultimately show False using a by blast
  qed
  then show "isBlank s"
    by (simp add: isBlank_def dropWhile_eq_Nil_conv list_all_iff)
next
  assume "isBlank s"
  then have d: "dropWhile isWhiteSpace s = []"
    by (simp add: isBlank_def dropWhile_eq_Nil_conv list_all_iff)
  show "trim s = []"
    by (simp add: trim_def d)
qed

lemma lower_GEMINI: "toLowerCase ''GEMINI'' = ''gemini''"
  by code_simp

section \<open>C4: the provider router\<close>

text \<open>
  C4. \<open>getProvider\<close> is a total function of the optional configuration. Without a
  configuration, or when one of \<open>provider\<close>, \<open>model\<close>, \<open>apiKey\<close> is blank (empty or white space
  only), it returns the no-op adapter, whose \<open>generateText\<close> returns the fixed
  "AI is not configured" message and sends no request. Otherwise the lower-cased provider
  name selects the family: the Gemini adapter for gemini, google and google gemini, the
  OpenAI adapter for openai and custom, the Anthropic adapter for anthropic and claude, and
  the no-op adapter for every other name. "GEMINI" routes to the Gemini adapter.
\<close>

theorem getProvider_routing:
  "(cfg = None \<longrightarrow> getProvider cfg = createNoOpProvider)
   \<and> (isBlank (provider c) \<or> isBlank (model c) \<or> isBlank (apiKey c)
        \<longrightarrow> getProvider (Some c) = createNoOpProvider)
   \<and> generateText net createNoOpProvider messages options = (Inr UNCONFIGURED_MESSAGE, [])
   \<and> (\<not> isBlank (provider c) \<and> \<not> isBlank (model c) \<and> \<not> isBlank (apiKey c) \<longrightarrow>
        (toLowerCase (provider c) \<in> {''gemini'', ''google'', ''google gemini''}
           \<longrightarrow> getProvider (Some c) = createGeminiProvider c)
      \<and> (toLowerCase (provider c) \<in> {''openai'', ''custom''}
           \<longrightarrow> getProvider (Some c) = createOpenAIProvider c)
      \<and> (toLowerCase (provider c) \<in> {''anthropic'', ''claude''}
           \<longrightarrow> getProvider (Some c) = createAnthropicProvider c)
      \<and> (toLowerCase (provider c) \<notin> {''gemini'', ''google'', ''google gemini'', ''openai'', ''custom'',
                                        ''anthropic'', ''claude''}
           \<longrightarrow> getProvider (Some c) = createNoOpProvider))
   \<and> (\<not> isBlank m \<and> \<not> isBlank k \<longrightarrow>
        getProvider (Some \<lparr>provider = ''GEMINI'', model = m, apiKey = k, baseUrl = b\<rparr>)
          = createGeminiProvider \<lparr>provider = ''GEMINI'', model = m, apiKey = k, baseUrl = b\<rparr>)"
proof -
  have g: "\<not> isBlank ''GEMINI''"
    by (simp add: isBlank_def isWhiteSpace_def)
  show ?thesis
    using g by (auto simp: getProvider_def trim_Nil_iff createNoOpProvider_def Let_def lower_GEMINI)
qed

theorem getProvider_routing_witness:
  "isBlank (provider \<lparr>provider = ''  '', model = ''x'', apiKey = ''y'', baseUrl = None\<rparr>)
   \<and> getProvider (Some \<lparr>provider = ''  '', model = ''x'', apiKey = ''y'', baseUrl = None\<rparr>) = createNoOpProvider
   \<and> \<not> isBlank ''x'' \<and> \<not> isBlank ''y''
   \<and> getProvider (Some \<lparr>provider = ''GEMINI'', model = ''x'', apiKey = ''y'', baseUrl = None\<rparr>)
        = createGeminiProvider \<lparr>provider = ''GEMINI'', model = ''x'', apiKey = ''y'', baseUrl = None\<rparr>
   \<and> getProvider None = createNoOpProvider"
proof -
  have b: "isBlank (provider \<lparr>provider = ''  '', model = ''x'', apiKey = ''y'', baseUrl = None\<rparr>)"
    by (simp add: isBlank_def isWhiteSpace_def)
  have x: "\<not> isBlank ''x''" and y: "\<not> isBlank ''y''"
    by (simp_all add: isBlank_def isWhiteSpace_def)
  from getProvider_routing
         [where cfg = None and c = "\<lparr>provider = ''  '', model = ''x'', apiKey = ''y'', baseUrl = None\<rparr>"
            and m = "''x''" and k = "''y''" and b = None]
       b x y
  show ?thesis by blast
qed

section \<open>C6: adapters on an empty message sequence\<close>

text \<open>
  C6 fails for two of the three adapters. Called with no messages, the Gemini adapter sends
  one user message with empty text, while the OpenAI and Anthropic adapters send an empty
  message list.
\<close>

theorem empty_messages_requests:
  "map requestMessages (snd (generateText net (createGeminiProvider c) [] opts)) = [[(''user'', '''')]]
   \<and> map requestMessages (snd (generateText net (createOpenAIProvider c) [] opts)) = [[]]
   \<and> map requestMessages (snd (generateText net (createAnthropicProvider c) [] opts)) = [[]]"
  by (simp add: createGeminiProvider_def createOpenAIProvider_def createAnthropicProvider_def
        geminiGenerateText_def openAIGenerateText_def anthropicGenerateText_def Let_def)

section \<open>C8: executive summary without recent records\<close>

lemma recentLogs_none:
  assumes "\<forall>l \<in> set auditLogs. case created l of None \<Rightarrow> True | Some c \<Rightarrow> c < now - 24 * 60 * 60 * 1000"
  shows "recentLogs now auditLogs = []"
  using assms
  by (auto simp: recentLogs_def Let_def filter_empty_conv split: option.splits)

lemma recentLogs_future:
  assumes "l \<in> set auditLogs" and "created l = Some c" and "now < c"
  shows "l \<in> set (recentLogs now auditLogs)"
  using assms by (simp add: recentLogs_def Let_def)

lemma summary_effects:
  "recentLogs now logs \<noteq> [] \<Longrightarrow>
     snd (generateExecutiveSummary net now d logs cfg) =
       ProviderCall (getProvider cfg)
          [\<lparr>role = User, content = summaryPrompt d (take 200 (recentLogs now logs))\<rparr>]
        # map NetCall (snd (generateText net (getProvider cfg)
             [\<lparr>role = User, content = summaryPrompt d (take 200 (recentLogs now logs))\<rparr>]
             (Some \<lparr>maxOutputTokens = Some 4096, temperature = Some 0.1,
                    topP = Some 0.9, topK = Some 40\<rparr>)))"
  by (simp add: generateExecutiveSummary_def Let_def callProvider_def
           split: prod.splits sum.splits)

text \<open>
  C8. When every record of the input has an invalid \<open>created\<close> time, or one that is neither
  within the last 24 hours nor after \<open>now\<close>, \<open>generateExecutiveSummary\<close> returns the fixed
  "No recent audit logs" string, calls no provider and sends no request, whatever the
  configuration and the network are. The filter of the code has a lower bound only: a
  record dated after \<open>now\<close> is not within the last 24 hours, yet with such a record in the
  input the function does not return the fixed string; it calls the provider with a prompt.
\<close>

theorem summary_short_circuit:
  "((\<forall>l \<in> set auditLogs. \<forall>c. created l = Some c \<longrightarrow> \<not> withinLast24h now c \<and> c \<le> now)
      \<longrightarrow> generateExecutiveSummary net now currentDate auditLogs llmCfg = (NO_RECENT_LOGS, []))
   \<and> (l \<in> set auditLogs \<and> created l = Some c \<and> now < c
      \<longrightarrow> \<not> withinLast24h now c
        \<and> generateExecutiveSummary net now currentDate auditLogs llmCfg \<noteq> (NO_RECENT_LOGS, [])
        \<and> (\<exists>prompt requests.
              snd (generateExecutiveSummary net now currentDate auditLogs llmCfg)
                = ProviderCall (getProvider llmCfg) [\<lparr>role = User, content = prompt\<rparr>]
                  # map NetCall requests))"
proof (intro conjI impI)
  assume "\<forall>l \<in> set auditLogs. \<forall>c. created l = Some c \<longrightarrow> \<not> withinLast24h now c \<and> c \<le> now"
  then have "\<forall>l \<in> set auditLogs. case created l of None \<Rightarrow> True | Some c \<Rightarrow> c < now - 24 * 60 * 60 * 1000"
    by (fastforce simp: withinLast24h_def split: option.splits)
  then have "recentLogs now auditLogs = []"
    by (rule recentLogs_none)
  then show "generateExecutiveSummary net now currentDate auditLogs llmCfg = (NO_RECENT_LOGS, [])"
    by (simp add: generateExecutiveSummary_def)
next
  assume a: "l \<in> set auditLogs \<and> created l = Some c \<and> now < c"
  then show "\<not> withinLast24h now c"
    by (simp add: withinLast24h_def)
  from a have "l \<in> set (recentLogs now auditLogs)"
    by (auto intro: recentLogs_future)
  then have r: "recentLogs now auditLogs \<noteq> []"
    by auto
  have e: "snd (generateExecutiveSummary net now currentDate auditLogs llmCfg) \<noteq> []"
    using r by (simp add: summary_effects)
  then show "generateExecutiveSummary net now currentDate auditLogs llmCfg \<noteq> (NO_RECENT_LOGS, [])"
    by auto
  show "\<exists>prompt requests.
              snd (generateExecutiveSummary net now currentDate auditLogs llmCfg)
                = ProviderCall (getProvider llmCfg) [\<lparr>role = User, content = prompt\<rparr>]
                  # map NetCall requests"
    using r by (auto simp: summary_effects)
qed

theorem summary_short_circuit_witness:
  "demoLog ''a'' (Some 964000000) \<in> set [demoLog ''a'' (Some 964000000)]
   \<and> created (demoLog ''a'' (Some 964000000)) = Some 964000000
   \<and> (100000000 :: int) < 964000000
   \<and> list_all (\<lambda>l. case created l of None \<Rightarrow> True | Some c \<Rightarrow> \<not> withinLast24h 100000000 c)
        [demoLog ''a'' (Some 964000000)]
   \<and> generateExecutiveSummary (replyNetwork ''ok'') 100000000 ''November 3, 2026''
        [demoLog ''a'' (Some 964000000)] (Some demoLlmConfig) \<noteq> (NO_RECENT_LOGS, [])
   \<and> generateExecutiveSummary (replyNetwork ''ok'') 100000000 ''November 3, 2026''
        [demoLog ''a'' (Some 0), demoLog ''b'' None] (Some demoLlmConfig) = (NO_RECENT_LOGS, [])"
proof -
  have h1: "demoLog ''a'' (Some 964000000) \<in> set [demoLog ''a'' (Some 964000000)]
     \<and> created (demoLog ''a'' (Some 964000000)) = Some 964000000 \<and> (100000000 :: int) < 964000000"
    by (simp add: demoLog_def)
  have h2: "list_all (\<lambda>l. case created l of None \<Rightarrow> True | Some c \<Rightarrow> \<not> withinLast24h 100000000 c)
        [demoLog ''a'' (Some 964000000)]"
    by (simp add: demoLog_def withinLast24h_def)
  have h3: "\<forall>l \<in> set [demoLog ''a'' (Some 0), demoLog ''b'' None].
              \<forall>c. created l = Some c \<longrightarrow> \<not> withinLast24h 100000000 c \<and> c \<le> 100000000"
    by (simp add: demoLog_def withinLast24h_def)
  have a: "generateExecutiveSummary (replyNetwork ''ok'') 100000000 ''November 3, 2026''
        [demoLog ''a'' (Some 964000000)] (Some demoLlmConfig) \<noteq> (NO_RECENT_LOGS, [])"
    using summary_short_circuit
            [where l = "demoLog ''a'' (Some 964000000)" and c = 964000000 and now = 100000000
               and auditLogs = "[demoLog ''a'' (Some 964000000)]" and net = "replyNetwork ''ok''"
               and currentDate = "''November 3, 2026''" and llmCfg = "Some demoLlmConfig"]
          h1
    by blast
  have b: "generateExecutiveSummary (replyNetwork ''ok'') 100000000 ''November 3, 2026''
        [demoLog ''a'' (Some 0), demoLog ''b'' None] (Some demoLlmConfig) = (NO_RECENT_LOGS, [])"
    using summary_short_circuit
            [where now = 100000000 and auditLogs = "[demoLog ''a'' (Some 0), demoLog ''b'' None]"
               and net = "replyNetwork ''ok''"
               and currentDate = "''November 3, 2026''" and llmCfg = "Some demoLlmConfig"]
          h3
    by blast
  from h1 h2 a b show ?thesis by blast
qed

section \<open>C9: the statistics of the executive summary\<close>
























section \<open>C7: insight extraction\<close>

lemma getProvider_demo: "getProvider (Some demoLlmConfig) = OpenAIProvider demoLlmConfig"
  by code_simp

lemma callProvider_reply:
  "fst (callProvider (replyNetwork txt) (OpenAIProvider c) msgs opts) = Inr txt"
  by (simp add: callProvider_def openAIGenerateText_def replyNetwork_def Let_def split: prod.splits)

lemma parse_twoInsights:
  "JSON_parse twoInsightsText = Inr (JArray [JString (codeUnits ''a''), JString (codeUnits ''b'')])"
  by code_simp

lemma parse_not_json: "JSON_parse ''not json'' = Inl (SyntaxError ''Unexpected token in JSON'')"
  by code_simp

lemma parse_numbers: "JSON_parse ''[1,2]'' = Inr (JArray [JNumber ''1'', JNumber ''2''])"
  by code_simp

lemma analyze_cases:
  assumes "callProvider net (getProvider cfg)
             [\<lparr>role = User, content = analyzePrompt stringify (take 100 logs)\<rparr>] None = (r, eff)"
  shows "analyzeAuditLogs net stringify logs cfg =
           (case r of
              Inr txt \<Rightarrow> (case JSON_parse txt of
                           Inr (JArray xs) \<Rightarrow> (xs, eff)
                         | _ \<Rightarrow> ([JString (codeUnits txt)], eff))
            | Inl e \<Rightarrow> ([JString (codeUnits (''Analysis error: '' @ errorMessage e))], eff))"
  using assms
  by (simp add: analyzeAuditLogs_def Let_def split: sum.splits Json.splits)

text \<open>
  C7 (amended). \<open>analyzeAuditLogs\<close> always returns a sequence. When the provider's text
  parses to a JSON array, the sequence is that array as parsed; when the text does not parse
  or parses to something else, it is the text itself as the only element; when the provider
  call fails, it is the single string "Analysis error: " followed by the message. The text
  ["a","b"] yields the two strings a and b, and the text "not json" yields itself.
\<close>

theorem analyzeAuditLogs_insights:
  "(fst (callProvider net (getProvider cfg)
          [\<lparr>role = User, content = analyzePrompt stringify (take 100 logs)\<rparr>] None) = Inr txt \<longrightarrow>
      (JSON_parse txt = Inr (JArray xs) \<longrightarrow> fst (analyzeAuditLogs net stringify logs cfg) = xs)
    \<and> ((\<forall>ys. JSON_parse txt \<noteq> Inr (JArray ys)) \<longrightarrow>
          fst (analyzeAuditLogs net stringify logs cfg) = [JString (codeUnits txt)]))
   \<and> (fst (callProvider net (getProvider cfg)
          [\<lparr>role = User, content = analyzePrompt stringify (take 100 logs)\<rparr>] None) = Inl e \<longrightarrow>
        fst (analyzeAuditLogs net stringify logs cfg)
          = [JString (codeUnits (''Analysis error: '' @ errorMessage e))])
   \<and> fst (analyzeAuditLogs (replyNetwork twoInsightsText) stringify logs (Some demoLlmConfig))
        = [JString (codeUnits ''a''), JString (codeUnits ''b'')]
   \<and> fst (analyzeAuditLogs (replyNetwork ''not json'') stringify logs (Some demoLlmConfig))
        = [JString (codeUnits ''not json'')]"
proof -
  obtain r eff where c: "callProvider net (getProvider cfg)
             [\<lparr>role = User, content = analyzePrompt stringify (take 100 logs)\<rparr>] None = (r, eff)"
    by (cases "callProvider net (getProvider cfg)
             [\<lparr>role = User, content = analyzePrompt stringify (take 100 logs)\<rparr>] None") auto
  note a = analyze_cases [OF c]
  have p1: "r = Inr txt \<Longrightarrow> JSON_parse txt = Inr (JArray xs) \<Longrightarrow>
              fst (analyzeAuditLogs net stringify logs cfg) = xs"
    by (simp add: a)
  have p2: "r = Inr txt \<Longrightarrow> \<forall>ys. JSON_parse txt \<noteq> Inr (JArray ys) \<Longrightarrow>
              fst (analyzeAuditLogs net stringify logs cfg) = [JString (codeUnits txt)]"
    by (simp add: a split: sum.splits Json.splits)
  have p3: "r = Inl e \<Longrightarrow> fst (analyzeAuditLogs net stringify logs cfg)
          = [JString (codeUnits (''Analysis error: '' @ errorMessage e))]"
    by (simp add: a)
  have e1: "fst (analyzeAuditLogs (replyNetwork twoInsightsText) stringify logs (Some demoLlmConfig))
        = [JString (codeUnits ''a''), JString (codeUnits ''b'')]"
  proof -
    obtain r1 f1 where c1: "callProvider (replyNetwork twoInsightsText) (getProvider (Some demoLlmConfig))
         [\<lparr>role = User, content = analyzePrompt stringify (take 100 logs)\<rparr>] None = (r1, f1)"
      by (cases "callProvider (replyNetwork twoInsightsText) (getProvider (Some demoLlmConfig))
         [\<lparr>role = User, content = analyzePrompt stringify (take 100 logs)\<rparr>] None") auto
    have "fst (callProvider (replyNetwork twoInsightsText) (getProvider (Some demoLlmConfig))
         [\<lparr>role = User, content = analyzePrompt stringify (take 100 logs)\<rparr>] None) = Inr twoInsightsText"
      by (simp add: getProvider_demo callProvider_reply)
    then have "r1 = Inr twoInsightsText"
      using c1 by simp
    then show ?thesis
      by (simp add: analyze_cases [OF c1] parse_twoInsights)
  qed
  have e2: "fst (analyzeAuditLogs (replyNetwork ''not json'') stringify logs (Some demoLlmConfig))
        = [JString (codeUnits ''not json'')]"
  proof -
    obtain r1 f1 where c1: "callProvider (replyNetwork ''not json'') (getProvider (Some demoLlmConfig))
         [\<lparr>role = User, content = analyzePrompt stringify (take 100 logs)\<rparr>] None = (r1, f1)"
      by (cases "callProvider (replyNetwork ''not json'') (getProvider (Some demoLlmConfig))
         [\<lparr>role = User, content = analyzePrompt stringify (take 100 logs)\<rparr>] None") auto
    have "fst (callProvider (replyNetwork ''not json'') (getProvider (Some demoLlmConfig))
         [\<lparr>role = User, content = analyzePrompt stringify (take 100 logs)\<rparr>] None) = Inr ''not json''"
      by (simp add: getProvider_demo callProvider_reply)
    then have "r1 = Inr ''not json''"
      using c1 by simp
    then show ?thesis
      by (simp add: analyze_cases [OF c1] parse_not_json)
  qed
  from p1 p2 p3 e1 e2 c show ?thesis by simp
qed

theorem analyzeAuditLogs_insights_witness:
  "fst (callProvider (replyNetwork ''{}'') (getProvider (Some demoLlmConfig))
          [\<lparr>role = User, content = analyzePrompt (\<lambda>ls. ''[]'') (take 100 [])\<rparr>] None) = Inr ''{}''
   \<and> (\<forall>ys. JSON_parse ''{}'' \<noteq> Inr (JArray ys))
   \<and> fst (analyzeAuditLogs (replyNetwork ''{}'') (\<lambda>ls. ''[]'') [] (Some demoLlmConfig))
        = [JString (codeUnits ''{}'')]"
proof -
  have h1: "fst (callProvider (replyNetwork ''{}'') (getProvider (Some demoLlmConfig))
          [\<lparr>role = User, content = analyzePrompt (\<lambda>ls. ''[]'') (take 100 [])\<rparr>] None) = Inr ''{}''"
    by (simp add: getProvider_demo callProvider_reply)
  have p: "JSON_parse ''{}'' = Inr (JObject [])"
    by code_simp
  have h2: "\<forall>ys. JSON_parse ''{}'' \<noteq> Inr (JArray ys)"
    by (simp add: p)
  from analyzeAuditLogs_insights
         [of "replyNetwork ''{}''" "Some demoLlmConfig" "\<lambda>ls. ''[]''" "[]" "''{}''"]
       h1 h2
  show ?thesis by blast
qed

text \<open>
  C7, as stated, promises a sequence of strings in every case. The text [1,2] parses to an
  array of numbers, which is returned as it is.
\<close>

theorem insights_not_strings_counterexample:
  "fst (analyzeAuditLogs (replyNetwork ''[1,2]'') (\<lambda>ls. ''[]'') [] (Some demoLlmConfig))
     = [JNumber ''1'', JNumber ''2'']
   \<and> \<not> list_all isString (fst (analyzeAuditLogs (replyNetwork ''[1,2]'') (\<lambda>ls. ''[]'') []
                                 (Some demoLlmConfig)))"
proof -
  have h1: "fst (callProvider (replyNetwork ''[1,2]'') (getProvider (Some demoLlmConfig))
          [\<lparr>role = User, content = analyzePrompt (\<lambda>ls. ''[]'') (take 100 [])\<rparr>] None) = Inr ''[1,2]''"
    by (simp add: getProvider_demo callProvider_reply)
  obtain r1 f1 where c1: "callProvider (replyNetwork ''[1,2]'') (getProvider (Some demoLlmConfig))
         [\<lparr>role = User, content = analyzePrompt (\<lambda>ls. ''[]'') (take 100 [])\<rparr>] None = (r1, f1)"
    by (cases "callProvider (replyNetwork ''[1,2]'') (getProvider (Some demoLlmConfig))
         [\<lparr>role = User, content = analyzePrompt (\<lambda>ls. ''[]'') (take 100 [])\<rparr>] None") auto
  have "r1 = Inr ''[1,2]''"
    using c1 h1 by simp
  then have "fst (analyzeAuditLogs (replyNetwork ''[1,2]'') (\<lambda>ls. ''[]'') [] (Some demoLlmConfig))
     = [JNumber ''1'', JNumber ''2'']"
    by (simp add: analyze_cases [OF c1] parse_numbers)
  then show ?thesis
    by (simp add: isString_def)
qed

section \<open>Configuration endpoints: facts\<close>

text \<open>
  \<open>redactStore\<close> blanks the two secrets of every session. Every store operation the
  configuration endpoints use commutes with it, up to the secret in the returned record.
\<close>

lemma redactStore_apply: "redactStore ss k = map_option redactSession (ss k)"
  by (simp add: redactStore_def)

lemma redactStore_upd: "redactStore (ss(k \<mapsto> v)) = (redactStore ss)(k \<mapsto> redactSession v)"
  by (auto simp: redactStore_def fun_eq_iff)

lemma redactStore_del: "redactStore (ss(k := None)) = (redactStore ss)(k := None)"
  by (auto simp: redactStore_def fun_eq_iff)

lemma redactSession_lastAccessed: "lastAccessed (redactSession s) = lastAccessed s"
  by (simp add: redactSession_def)

lemma redactSession_touch:
  "redactSession (s\<lparr>lastAccessed := n\<rparr>) = (redactSession s)\<lparr>lastAccessed := n\<rparr>"
  by (simp add: redactSession_def)

lemma redactSession_fresh:
  "redactSession \<lparr>id_session = i, snykConfig = None, llmConfig = None, createdAt = a, lastAccessed = l\<rparr>
     = \<lparr>id_session = i, snykConfig = None, llmConfig = None, createdAt = a, lastAccessed = l\<rparr>"
  by (simp add: redactSession_def)

lemma redactSession_idem: "redactSession (redactSession s) = redactSession s"
  by (cases "snykConfig s"; cases "llmConfig s") (simp_all add: redactSession_def)

lemma redactStore_idem: "redactStore (redactStore ss) = redactStore ss"
  by (auto simp: redactStore_def fun_eq_iff option.map_comp redactSession_idem o_def)

lemma getOrCreateSessionId_redact:
  "getOrCreateSessionId now rnd cookie (redactStore ss) =
     (case getOrCreateSessionId now rnd cookie ss of (sid, ss1, out) \<Rightarrow> (sid, redactStore ss1, out))"
proof (cases cookie)
  case None
  then show ?thesis
    by (simp add: getOrCreateSessionId_def createSession_def Let_def redactStore_upd redactSession_fresh)
next
  case (Some c)
  show ?thesis
  proof (cases "ss c")
    case None
    with Some show ?thesis
      by (simp add: getOrCreateSessionId_def createSession_def Let_def redactStore_upd
            redactSession_fresh redactStore_apply)
  next
    case (Some s)
    with \<open>cookie = Some c\<close> show ?thesis
      by (simp add: getOrCreateSessionId_def createSession_def Let_def redactStore_upd
            redactStore_del redactSession_fresh redactStore_apply redactSession_lastAccessed
            redactSession_touch)
  qed
qed

lemma redactSession_snyk:
  "snykConfig (redactSession s) =
     map_option (\<lambda>st. st\<lparr>config := (config st)\<lparr>snykApiToken := []\<rparr>\<rparr>) (snykConfig s)"
  by (simp add: redactSession_def)

lemma redactSession_llm:
  "llmConfig (redactSession s) =
     map_option (\<lambda>st. st\<lparr>config := (config st)\<lparr>apiKey := []\<rparr>\<rparr>) (llmConfig s)"
  by (simp add: redactSession_def)

lemma redactSession_drop_snyk:
  "redactSession (s\<lparr>snykConfig := None\<rparr>) = (redactSession s)\<lparr>snykConfig := None\<rparr>"
  by (simp add: redactSession_def)

lemma redactSession_drop_llm:
  "redactSession (s\<lparr>llmConfig := None\<rparr>) = (redactSession s)\<lparr>llmConfig := None\<rparr>"
  by (simp add: redactSession_def)

lemma getApiConfiguration_redact:
  "getApiConfiguration now rnd cookie (redactStore ss) =
     (case getApiConfiguration now rnd cookie ss of
        (r, ss1, out) \<Rightarrow>
          (map_option (\<lambda>(c, sid). (c\<lparr>snykApiToken := []\<rparr>, sid)) r, redactStore ss1, out))"
proof -
  obtain sid ss1 out where g: "getOrCreateSessionId now rnd cookie ss = (sid, ss1, out)"
    by (cases "getOrCreateSessionId now rnd cookie ss") auto
  show ?thesis
    by (cases "ss1 sid")
       (auto simp: getApiConfiguration_def getOrCreateSessionId_redact g redactStore_apply
          redactSession_snyk redactStore_upd redactSession_drop_snyk split: option.splits)
qed

lemma getTimeUntilExpiration_redact:
  "getTimeUntilExpiration now rnd cookie (redactStore ss) =
     (case getTimeUntilExpiration now rnd cookie ss of
        (r, ss1, out) \<Rightarrow> (r, redactStore ss1, out))"
proof -
  obtain sid ss1 out where g: "getOrCreateSessionId now rnd cookie ss = (sid, ss1, out)"
    by (cases "getOrCreateSessionId now rnd cookie ss") auto
  show ?thesis
    by (cases "ss1 sid")
       (auto simp: getTimeUntilExpiration_def getOrCreateSessionId_redact g redactStore_apply
          redactSession_snyk split: option.splits)
qed

lemma getLlmConfiguration_redact:
  "getLlmConfiguration now rnd cookie (redactStore ss) =
     (case getLlmConfiguration now rnd cookie ss of
        (r, ss1, out) \<Rightarrow>
          (map_option (\<lambda>(c, sid). (c\<lparr>apiKey := []\<rparr>, sid)) r, redactStore ss1, out))"
proof -
  obtain sid ss1 out where g: "getOrCreateSessionId now rnd cookie ss = (sid, ss1, out)"
    by (cases "getOrCreateSessionId now rnd cookie ss") auto
  show ?thesis
    by (cases "ss1 sid")
       (auto simp: getLlmConfiguration_def getOrCreateSessionId_redact g redactStore_apply
          redactSession_llm redactStore_upd redactSession_drop_llm split: option.splits)
qed

lemma GET_api_config_redact:
  "GET_api_config now rnd rnd2 cookie (redactStore ss) =
     (case GET_api_config now rnd rnd2 cookie ss of (r, ss2, out) \<Rightarrow> (r, redactStore ss2, out))"
proof -
  obtain r ss1 out1 where a: "getApiConfiguration now rnd cookie ss = (r, ss1, out1)"
    by (cases "getApiConfiguration now rnd cookie ss") auto
  obtain t ss2 out2 where b: "getTimeUntilExpiration now rnd2 cookie ss1 = (t, ss2, out2)"
    by (cases "getTimeUntilExpiration now rnd2 cookie ss1") auto
  show ?thesis
    by (cases r)
       (auto simp: GET_api_config_def getApiConfiguration_redact a getTimeUntilExpiration_redact b)
qed

lemma GET_api_llm_config_redact:
  "GET_api_llm_config now rnd cookie (redactStore ss) =
     (case GET_api_llm_config now rnd cookie ss of (r, ss2, out) \<Rightarrow> (r, redactStore ss2, out))"
proof -
  obtain r ss1 out1 where a: "getLlmConfiguration now rnd cookie ss = (r, ss1, out1)"
    by (cases "getLlmConfiguration now rnd cookie ss") auto
  show ?thesis
    by (cases r) (auto simp: GET_api_llm_config_def getLlmConfiguration_redact a)
qed

lemma getTimeUntilExpiration_low:
  assumes "redactStore a = redactStore b"
  shows "fst (getTimeUntilExpiration now rnd cookie a) = fst (getTimeUntilExpiration now rnd cookie b)"
proof -
  obtain r1 s1 o1 where x: "getTimeUntilExpiration now rnd cookie a = (r1, s1, o1)"
    by (cases "getTimeUntilExpiration now rnd cookie a") auto
  obtain r2 s2 o2 where y: "getTimeUntilExpiration now rnd cookie b = (r2, s2, o2)"
    by (cases "getTimeUntilExpiration now rnd cookie b") auto
  have "getTimeUntilExpiration now rnd cookie (redactStore a)
          = getTimeUntilExpiration now rnd cookie (redactStore b)"
    by (simp only: assms)
  then show ?thesis
    by (simp add: getTimeUntilExpiration_redact x y)
qed

lemma redactSession_set_snyk:
  assumes "c\<lparr>snykApiToken := []\<rparr> = c'\<lparr>snykApiToken := []\<rparr>"
  shows "redactSession ((redactSession s)\<lparr>snykConfig := Some \<lparr>config = c', expiresAt = x\<rparr>\<rparr>)
           = redactSession (s\<lparr>snykConfig := Some \<lparr>config = c, expiresAt = x\<rparr>\<rparr>)"
  using assms
  by (cases "llmConfig s") (simp_all add: redactSession_def)

lemma setApiConfiguration_low:
  assumes "setApiConfiguration now rnd cookie c T ss = Inr (sid, ss1, out)"
    and "c\<lparr>snykApiToken := []\<rparr> = c'\<lparr>snykApiToken := []\<rparr>"
  shows "\<exists>ss2. setApiConfiguration now rnd cookie c' T (redactStore ss) = Inr (sid, ss2, out)
               \<and> redactStore ss2 = redactStore ss1"
proof -
  obtain s a o' where g: "getOrCreateSessionId now rnd cookie ss = (s, a, o')"
    by (cases "getOrCreateSessionId now rnd cookie ss") auto
  from getOrCreateSessionId_present [OF g] obtain sess where p: "a s = Some sess"
    by auto
  from assms(1) g p have r: "sid = s" "out = o'"
      "ss1 = a(s \<mapsto> sess\<lparr>snykConfig := Some \<lparr>config = c, expiresAt = now + T * 60 * 1000\<rparr>\<rparr>)"
    by (auto simp: setApiConfiguration_def)
  have "setApiConfiguration now rnd cookie c' T (redactStore ss)
          = Inr (s, (redactStore a)(s \<mapsto> (redactSession sess)
                      \<lparr>snykConfig := Some \<lparr>config = c', expiresAt = now + T * 60 * 1000\<rparr>\<rparr>), o')"
    by (simp add: setApiConfiguration_def getOrCreateSessionId_redact g redactStore_apply p)
  moreover have "redactStore ((redactStore a)(s \<mapsto> (redactSession sess)
                      \<lparr>snykConfig := Some \<lparr>config = c', expiresAt = now + T * 60 * 1000\<rparr>\<rparr>))
                 = redactStore ss1"
    by (simp add: r redactStore_upd redactStore_idem redactSession_set_snyk [OF assms(2)])
  ultimately show ?thesis
    using r by simp
qed

lemma POST_api_config_normal:
  assumes "bodyToken b = Some t" and "t \<noteq> []"
  shows "fst (POST_api_config test now rnd rnd2 cookie b ss) =
         fst (POST_api_config
               (\<lambda>x y. test t (case bodyApiVersion b of None \<Rightarrow> ''2024-10-15'' | Some v \<Rightarrow> v))
               now rnd rnd2 cookie (b\<lparr>bodyToken := Some ''x''\<rparr>) (redactStore ss))"
proof (cases "fst (test t (case bodyApiVersion b of None \<Rightarrow> ''2024-10-15'' | Some v \<Rightarrow> v))")
  case False
  then show ?thesis
    using assms by (simp add: POST_api_config_def Let_def)
next
  case True
  define version where "version = (if bodyApiVersion b \<noteq> None \<and> bodyApiVersion b \<noteq> Some []
                                    then the (bodyApiVersion b) else ''2024-10-15'')"
  define c where "c = \<lparr>snykApiToken = t, groupId = bodyGroupId b, orgId = bodyOrgId b,
                        apiVersion = Some version\<rparr>"
  define c' where "c' = \<lparr>snykApiToken = ''x'', groupId = bodyGroupId b, orgId = bodyOrgId b,
                        apiVersion = Some version\<rparr>"
  have cc: "c\<lparr>snykApiToken := []\<rparr> = c'\<lparr>snykApiToken := []\<rparr>"
    by (simp add: c_def c'_def)
  obtain sid ss1 out where s: "setApiConfiguration now rnd cookie c 30 ss = Inr (sid, ss1, out)"
    using setApiConfiguration_total by blast
  from setApiConfiguration_low [OF s cc] obtain ss2 where
    s': "setApiConfiguration now rnd cookie c' 30 (redactStore ss) = Inr (sid, ss2, out)"
    and e: "redactStore ss2 = redactStore ss1"
    by blast
  have tm: "fst (getTimeUntilExpiration now rnd2 cookie ss2) = fst (getTimeUntilExpiration now rnd2 cookie ss1)"
    using e by (rule getTimeUntilExpiration_low)
  have l: "fst (POST_api_config test now rnd rnd2 cookie b ss) =
             jsonResponse (JObject
                (optProp ''groupId'' (bodyGroupId b) @ optProp ''orgId'' (bodyOrgId b)
                 @ [(''apiVersion'', JString version),
                    (''snykApiToken'', JString ''***''),
                    (''expiresInMinutes'', numberOrNull (fst (getTimeUntilExpiration now rnd2 cookie ss1))),
                    (''sessionId'', JString sid)]))"
    using assms True s
    by (auto simp: POST_api_config_def Let_def version_def c_def split: prod.splits)
  have r: "fst (POST_api_config
               (\<lambda>x y. test t (case bodyApiVersion b of None \<Rightarrow> ''2024-10-15'' | Some v \<Rightarrow> v))
               now rnd rnd2 cookie (b\<lparr>bodyToken := Some ''x''\<rparr>) (redactStore ss)) =
             jsonResponse (JObject
                (optProp ''groupId'' (bodyGroupId b) @ optProp ''orgId'' (bodyOrgId b)
                 @ [(''apiVersion'', JString version),
                    (''snykApiToken'', JString ''***''),
                    (''expiresInMinutes'', numberOrNull (fst (getTimeUntilExpiration now rnd2 cookie ss2))),
                    (''sessionId'', JString sid)]))"
    using True s'
    by (auto simp: POST_api_config_def Let_def version_def c'_def split: prod.splits)
  show ?thesis
    by (simp only: l r tm)
qed

lemma POST_api_config_missing:
  "bodyToken b = None \<or> bodyToken b = Some [] \<Longrightarrow>
     fst (POST_api_config test now rnd rnd2 cookie b ss) = errorResponse 400 ''Snyk API token is required''"
  by (simp add: POST_api_config_def)

lemma POST_api_llm_config_response:
  "fst (POST_api_llm_config now rnd cookie b ss) =
     (if \<not> truthy (bodyProvider b) \<or> typeof (bodyProvider b) \<noteq> ''string''
         \<or> \<not> truthy (bodyModel b) \<or> typeof (bodyModel b) \<noteq> ''string''
         \<or> \<not> truthy (bodyApiKey b) \<or> typeof (bodyApiKey b) \<noteq> ''string''
      then errorResponse 400 ''provider, model, and apiKey are required''
      else jsonResponse (JObject [(''provider'', JString (trim (stringValue (bodyProvider b)))),
                                  (''model'', JString (trim (stringValue (bodyModel b)))),
                                  (''configured'', JBool True)]))"
proof -
  obtain sid ss1 out where
    "setLlmConfiguration now rnd cookie
        \<lparr>provider = trim (stringValue (bodyProvider b)),
         model = trim (stringValue (bodyModel b)),
         apiKey = trim (stringValue (bodyApiKey b)),
         baseUrl = (if truthy (bodyBaseUrl b) \<and> typeof (bodyBaseUrl b) = ''string''
                    then (if trim (stringValue (bodyBaseUrl b)) \<noteq> []
                          then Some (trim (stringValue (bodyBaseUrl b))) else None)
                    else None)\<rparr> 30 ss = Inr (sid, ss1, out)"
    using setLlmConfiguration_total by blast
  then show ?thesis
    by (simp add: POST_api_llm_config_def Let_def)
qed

lemma GET_api_config_low:
  assumes "redactStore ss = redactStore ss'"
  shows "fst (GET_api_config now rnd rnd2 cookie ss) = fst (GET_api_config now rnd rnd2 cookie ss')"
proof -
  have v: "fst (GET_api_config now rnd rnd2 cookie (redactStore s)) = fst (GET_api_config now rnd rnd2 cookie s)" for s
    by (simp add: GET_api_config_redact split: prod.splits)
  show ?thesis
    using v [of ss] v [of ss'] assms by simp
qed

lemma GET_api_llm_config_low:
  assumes "redactStore ss = redactStore ss'"
  shows "fst (GET_api_llm_config now rnd cookie ss) = fst (GET_api_llm_config now rnd cookie ss')"
proof -
  have v: "fst (GET_api_llm_config now rnd cookie (redactStore s)) = fst (GET_api_llm_config now rnd cookie s)" for s
    by (simp add: GET_api_llm_config_redact split: prod.splits)
  show ?thesis
    using v [of ss] v [of ss'] assms by simp
qed

lemma POST_api_config_low:
  assumes "redactStore ss = redactStore ss'"
    and "t \<noteq> []" and "t' \<noteq> []"
    and "test t (case bodyApiVersion b of None \<Rightarrow> ''2024-10-15'' | Some v \<Rightarrow> v)
           = test t' (case bodyApiVersion b of None \<Rightarrow> ''2024-10-15'' | Some v \<Rightarrow> v)"
  shows "fst (POST_api_config test now rnd rnd2 cookie (b\<lparr>bodyToken := Some t\<rparr>) ss)
           = fst (POST_api_config test now rnd rnd2 cookie (b\<lparr>bodyToken := Some t'\<rparr>) ss')"
proof -
  have a: "fst (POST_api_config test now rnd rnd2 cookie (b\<lparr>bodyToken := Some t\<rparr>) ss) =
         fst (POST_api_config
               (\<lambda>x y. test t (case bodyApiVersion b of None \<Rightarrow> ''2024-10-15'' | Some v \<Rightarrow> v))
               now rnd rnd2 cookie (b\<lparr>bodyToken := Some ''x''\<rparr>) (redactStore ss))"
    using POST_api_config_normal [of "b\<lparr>bodyToken := Some t\<rparr>" t test now rnd rnd2 cookie ss] assms(2)
    by simp
  have b: "fst (POST_api_config test now rnd rnd2 cookie (b\<lparr>bodyToken := Some t'\<rparr>) ss') =
         fst (POST_api_config
               (\<lambda>x y. test t' (case bodyApiVersion b of None \<Rightarrow> ''2024-10-15'' | Some v \<Rightarrow> v))
               now rnd rnd2 cookie (b\<lparr>bodyToken := Some ''x''\<rparr>) (redactStore ss'))"
    using POST_api_config_normal [of "b\<lparr>bodyToken := Some t'\<rparr>" t' test now rnd rnd2 cookie ss'] assms(3)
    by simp
  show ?thesis
    by (simp only: a b assms(1) assms(4))
qed

lemma POST_api_config_low_state:
  assumes "redactStore ss = redactStore ss'"
  shows "fst (POST_api_config test now rnd rnd2 cookie b ss)
           = fst (POST_api_config test now rnd rnd2 cookie b ss')"
proof (cases "bodyToken b = None \<or> bodyToken b = Some []")
  case True
  then show ?thesis by (simp add: POST_api_config_missing)
next
  case False
  then obtain t where t: "bodyToken b = Some t" "t \<noteq> []"
    by auto
  then have "b\<lparr>bodyToken := Some t\<rparr> = b"
    by simp
  with POST_api_config_low
         [where ss = ss and ss' = ss' and t = t and t' = t and test = test and b = b
            and now = now and rnd = rnd and ?rnd2.0 = rnd2 and cookie = cookie]
       assms t(2)
  show ?thesis by simp
qed

lemma config_token_field:
  "map_of (bodyFields (fst (GET_api_config now rnd rnd2 cookie ss))) ''snykApiToken''
     = (if fst (getApiConfiguration now rnd cookie ss) = None then None else Some (JString ''***''))"
  by (auto simp: GET_api_config_def bodyFields_def jsonResponse_def optProp_def
           split: prod.splits option.splits)

lemma post_config_token_field:
  "status (fst (POST_api_config test now rnd rnd2 cookie b ss)) = 200 \<Longrightarrow>
     map_of (bodyFields (fst (POST_api_config test now rnd rnd2 cookie b ss))) ''snykApiToken''
       = Some (JString ''***'')"
  by (auto simp: POST_api_config_def bodyFields_def jsonResponse_def errorResponse_def optProp_def
           Let_def split: prod.splits option.splits sum.splits if_splits)

lemma llm_config_no_key:
  "map_of (bodyFields (fst (GET_api_llm_config now rnd cookie ss))) ''apiKey'' = None"
  "map_of (bodyFields (fst (POST_api_llm_config now rnd cookie lb ss))) ''apiKey'' = None"
  by (auto simp: GET_api_llm_config_def POST_api_llm_config_response bodyFields_def jsonResponse_def
           errorResponse_def split: prod.splits option.splits)

lemma redact_demo: "redactStore demoSessions = redactStore otherSecretsSessions"
  by (auto simp: redactStore_def fun_eq_iff demoSessions_def otherSecretsSessions_def
        redactSession_def demoSession_def demoSnykConfig_def demoLlmConfig_def)

section \<open>C3: configuration responses hide the stored secrets\<close>

text \<open>
  C3. No response of a configuration endpoint contains a stored secret. For two stores that
  differ only in the values of the secrets (the Snyk API token and the LLM API key of each
  session), GET and POST /api/config and GET and POST /api/llm-config answer the same
  request with the same response. The response of POST neither depends on the secret the
  request itself carries: two non-empty tokens that the upstream connection test judges alike
  give the same response, and so do two non-empty API keys. A response of /api/config that
  carries a configuration has the literal \<open>***\<close> as its \<open>snykApiToken\<close>, and no response of
  /api/llm-config has an \<open>apiKey\<close> field.
\<close>

theorem config_responses_hide_secrets:
  assumes "redactStore ss = redactStore ss'"
  shows "fst (GET_api_config now rnd rnd2 cookie ss) = fst (GET_api_config now rnd rnd2 cookie ss')
       \<and> fst (POST_api_config test now rnd rnd2 cookie b ss)
           = fst (POST_api_config test now rnd rnd2 cookie b ss')
       \<and> fst (GET_api_llm_config now rnd cookie ss) = fst (GET_api_llm_config now rnd cookie ss')
       \<and> fst (POST_api_llm_config now rnd cookie lb ss) = fst (POST_api_llm_config now rnd cookie lb ss')
       \<and> (t \<noteq> [] \<and> t' \<noteq> []
            \<and> test t (case bodyApiVersion b of None \<Rightarrow> ''2024-10-15'' | Some v \<Rightarrow> v)
                = test t' (case bodyApiVersion b of None \<Rightarrow> ''2024-10-15'' | Some v \<Rightarrow> v)
          \<longrightarrow> fst (POST_api_config test now rnd rnd2 cookie (b\<lparr>bodyToken := Some t\<rparr>) ss)
                = fst (POST_api_config test now rnd rnd2 cookie (b\<lparr>bodyToken := Some t'\<rparr>) ss'))
       \<and> (k \<noteq> [] \<and> k' \<noteq> []
          \<longrightarrow> fst (POST_api_llm_config now rnd cookie (lb\<lparr>bodyApiKey := Some (JString k)\<rparr>) ss)
                = fst (POST_api_llm_config now rnd cookie (lb\<lparr>bodyApiKey := Some (JString k')\<rparr>) ss'))
       \<and> (fst (getApiConfiguration now rnd cookie ss) \<noteq> None
          \<longrightarrow> map_of (bodyFields (fst (GET_api_config now rnd rnd2 cookie ss))) ''snykApiToken''
                = Some (JString ''***''))
       \<and> (status (fst (POST_api_config test now rnd rnd2 cookie b ss)) = 200
          \<longrightarrow> map_of (bodyFields (fst (POST_api_config test now rnd rnd2 cookie b ss))) ''snykApiToken''
                = Some (JString ''***''))
       \<and> map_of (bodyFields (fst (GET_api_llm_config now rnd cookie ss))) ''apiKey'' = None
       \<and> map_of (bodyFields (fst (POST_api_llm_config now rnd cookie lb ss))) ''apiKey'' = None"
proof -
  have keys: "k \<noteq> [] \<Longrightarrow> k' \<noteq> [] \<Longrightarrow>
      fst (POST_api_llm_config now rnd cookie (lb\<lparr>bodyApiKey := Some (JString k)\<rparr>) ss)
        = fst (POST_api_llm_config now rnd cookie (lb\<lparr>bodyApiKey := Some (JString k')\<rparr>) ss')"
    by (simp add: POST_api_llm_config_response truthy_def typeof_def)
  have st: "fst (POST_api_llm_config now rnd cookie lb ss) = fst (POST_api_llm_config now rnd cookie lb ss')"
    by (simp add: POST_api_llm_config_response)
  have tok: "t \<noteq> [] \<and> t' \<noteq> []
            \<and> test t (case bodyApiVersion b of None \<Rightarrow> ''2024-10-15'' | Some v \<Rightarrow> v)
                = test t' (case bodyApiVersion b of None \<Rightarrow> ''2024-10-15'' | Some v \<Rightarrow> v)
          \<longrightarrow> fst (POST_api_config test now rnd rnd2 cookie (b\<lparr>bodyToken := Some t\<rparr>) ss)
                = fst (POST_api_config test now rnd rnd2 cookie (b\<lparr>bodyToken := Some t'\<rparr>) ss')"
    using assms by (auto intro: POST_api_config_low)
  have f1: "fst (getApiConfiguration now rnd cookie ss) \<noteq> None
          \<longrightarrow> map_of (bodyFields (fst (GET_api_config now rnd rnd2 cookie ss))) ''snykApiToken''
                = Some (JString ''***'')"
    by (simp add: config_token_field)
  have f2: "status (fst (POST_api_config test now rnd rnd2 cookie b ss)) = 200
          \<longrightarrow> map_of (bodyFields (fst (POST_api_config test now rnd rnd2 cookie b ss))) ''snykApiToken''
                = Some (JString ''***'')"
    by (simp add: post_config_token_field)
  have g1: "fst (GET_api_config now rnd rnd2 cookie ss) = fst (GET_api_config now rnd rnd2 cookie ss')"
    using assms by (rule GET_api_config_low)
  have g2: "fst (POST_api_config test now rnd rnd2 cookie b ss)
              = fst (POST_api_config test now rnd rnd2 cookie b ss')"
    using assms by (rule POST_api_config_low_state)
  have g3: "fst (GET_api_llm_config now rnd cookie ss) = fst (GET_api_llm_config now rnd cookie ss')"
    using assms by (rule GET_api_llm_config_low)
  have keys': "k \<noteq> [] \<and> k' \<noteq> []
          \<longrightarrow> fst (POST_api_llm_config now rnd cookie (lb\<lparr>bodyApiKey := Some (JString k)\<rparr>) ss)
                = fst (POST_api_llm_config now rnd cookie (lb\<lparr>bodyApiKey := Some (JString k')\<rparr>) ss')"
    using keys by blast
  have n1: "map_of (bodyFields (fst (GET_api_llm_config now rnd cookie ss))) ''apiKey'' = None"
    by (rule llm_config_no_key)
  have n2: "map_of (bodyFields (fst (POST_api_llm_config now rnd cookie lb ss))) ''apiKey'' = None"
    by (rule llm_config_no_key)
  show ?thesis
    by (intro conjI) (rule g1 g2 g3 st tok keys' f1 f2 n1 n2)+
qed

theorem config_responses_hide_secrets_witness:
  "redactStore demoSessions = redactStore otherSecretsSessions
   \<and> ''tok'' \<noteq> [] \<and> ''other-token'' \<noteq> []
   \<and> acceptAll ''tok'' (case bodyApiVersion demoConfigBody of None \<Rightarrow> ''2024-10-15'' | Some v \<Rightarrow> v)
       = acceptAll ''other-token'' (case bodyApiVersion demoConfigBody of None \<Rightarrow> ''2024-10-15'' | Some v \<Rightarrow> v)
   \<and> ''sk-test'' \<noteq> [] \<and> ''sk-other'' \<noteq> []
   \<and> fst (getApiConfiguration 60000 [] (Some ''s1'') demoSessions) \<noteq> None
   \<and> status (fst (POST_api_config acceptAll 60000 [] [] (Some ''s1'') demoConfigBody demoSessions)) = 200
   \<and> fst (GET_api_config 60000 [] [] (Some ''s1'') demoSessions)
       = fst (GET_api_config 60000 [] [] (Some ''s1'') otherSecretsSessions)
   \<and> fst (POST_api_config acceptAll 60000 [] [] (Some ''s1'') (demoConfigBody\<lparr>bodyToken := Some ''tok''\<rparr>)
            demoSessions)
       = fst (POST_api_config acceptAll 60000 [] [] (Some ''s1'')
            (demoConfigBody\<lparr>bodyToken := Some ''other-token''\<rparr>) otherSecretsSessions)
   \<and> fst (POST_api_llm_config 60000 [] (Some ''s1'') (demoLlmBody\<lparr>bodyApiKey := Some (JString ''sk-test'')\<rparr>)
            demoSessions)
       = fst (POST_api_llm_config 60000 [] (Some ''s1'')
            (demoLlmBody\<lparr>bodyApiKey := Some (JString ''sk-other'')\<rparr>) otherSecretsSessions)
   \<and> map_of (bodyFields (fst (GET_api_config 60000 [] [] (Some ''s1'') demoSessions))) ''snykApiToken''
       = Some (JString ''***'')
   \<and> map_of (bodyFields (fst (POST_api_config acceptAll 60000 [] [] (Some ''s1'') demoConfigBody
                                 demoSessions))) ''snykApiToken''
       = Some (JString ''***'')"
proof -
  have h1: "''tok'' \<noteq> [] \<and> ''other-token'' \<noteq> [] \<and> ''sk-test'' \<noteq> [] \<and> ''sk-other'' \<noteq> []"
    by simp
  have h2: "acceptAll ''tok'' (case bodyApiVersion demoConfigBody of None \<Rightarrow> ''2024-10-15'' | Some v \<Rightarrow> v)
       = acceptAll ''other-token'' (case bodyApiVersion demoConfigBody of None \<Rightarrow> ''2024-10-15'' | Some v \<Rightarrow> v)"
    by (simp add: acceptAll_def)
  have h3: "fst (getApiConfiguration 60000 [] (Some ''s1'') demoSessions) \<noteq> None"
    by (simp add: getApiConfiguration_def getOrCreateSessionId_def demoSessions_def demoSession_def
          SESSION_TIMEOUT_def)
  have h4: "status (fst (POST_api_config acceptAll 60000 [] [] (Some ''s1'') demoConfigBody demoSessions)) = 200"
    by (simp add: POST_api_config_def demoConfigBody_def acceptAll_def setApiConfiguration_def
          getOrCreateSessionId_def demoSessions_def demoSession_def SESSION_TIMEOUT_def
          getTimeUntilExpiration_def jsonResponse_def Let_def)
  from config_responses_hide_secrets
         [where ss = demoSessions and ss' = otherSecretsSessions and now = 60000 and rnd = "[]"
            and ?rnd2.0 = "[]" and cookie = "Some ''s1''" and test = acceptAll
            and b = demoConfigBody and lb = demoLlmBody and t = "''tok''" and t' = "''other-token''"
            and k = "''sk-test''" and k' = "''sk-other''"]
       redact_demo h1 h2 h3 h4
  show ?thesis by blast
qed

section \<open>C5: requests that fail schema validation\<close>

lemma parseInt_examples: "parseInt ''0'' = Some 0" "parseInt ''101'' = Some 101" "parseInt ''abc'' = None"
  by code_simp+

text \<open>
  C5. A request that fails schema validation is rejected before any I/O: the stores are left
  as they were, the session cookie is not touched, and neither the provider nor the network
  is called. The status of the response is 500, not one of the 400 class: the \<open>ZodError\<close>
  that \<open>parse\<close> throws is caught by the handler's general \<open>catch\<close>. The body carries the
  message of that error, which zod renders from the violated constraint. This holds for
  POST /api/chat with an empty message, and for GET /api/audit-logs with a size of 0, of 101,
  and one that is not a number.
\<close>

theorem validation_failure_status:
  "POST_api_chat issueText net stringify now rnd uuid stamps cookie
       (Some (JObject [(''message'', JString '''')])) srv
     = (errorResponse 500 (issueText [TooSmall [Key ''message''] ''string'' 1]), srv, [], [])
   \<and> GET_api_audit_logs issueText toISO now rnd cookie
       \<lparr>qFrom = None, qTo = None, qEvents = None, qExcludeEvents = None,
        qSize = Some (QString ''0''), qCursor = None, qSearch = None\<rparr> ss
     = (Inl (errorResponse 500 (issueText [TooSmall [Key ''size''] ''number'' 1])), ss, [])
   \<and> GET_api_audit_logs issueText toISO now rnd cookie
       \<lparr>qFrom = None, qTo = None, qEvents = None, qExcludeEvents = None,
        qSize = Some (QString ''101''), qCursor = None, qSearch = None\<rparr> ss
     = (Inl (errorResponse 500 (issueText [TooBig [Key ''size''] ''number'' 100])), ss, [])
   \<and> GET_api_audit_logs issueText toISO now rnd cookie
       \<lparr>qFrom = None, qTo = None, qEvents = None, qExcludeEvents = None,
        qSize = Some (QString ''abc''), qCursor = None, qSearch = None\<rparr> ss
     = (Inl (errorResponse 500 (issueText [InvalidType [Key ''size''] ''number'' ''nan''])), ss, [])"
  by (simp add: POST_api_chat_def chatMessageSchema_parse_def zodError_def errorMessage_def
        GET_api_audit_logs_def auditLogFilterSchema_parse_def querySize_def queryArray_def
        optionalStringIssues_def stringArrayIssues_def sizeIssues_def parseInt_examples Let_def)

section \<open>C10: whitespace-only fields of an LLM configuration\<close>

lemma trim_trim_blank:
  assumes "isBlank s"
  shows "trim (trim s) = []"
proof -
  have t: "trim s = []"
    using assms by (simp only: trim_Nil_iff)
  have e: "trim [] = []"
    by (simp add: trim_def)
  show ?thesis
    by (simp only: t e)
qed

lemma getProvider_blank:
  "trim (provider c) = [] \<or> trim (model c) = [] \<or> trim (apiKey c) = []
     \<Longrightarrow> getProvider (Some c) = NoOpProvider"
  by (auto simp: getProvider_def createNoOpProvider_def)

lemma chatWithAI_noop:
  "getProvider cfg = NoOpProvider \<Longrightarrow>
     chatWithAI net stringify msg logs prev cfg =
       (UNCONFIGURED_MESSAGE,
        [ProviderCall NoOpProvider [\<lparr>role = User, content = chatPrompt stringify msg (take 50 logs) prev\<rparr>]])"
  by (simp add: chatWithAI_def Let_def callProvider_def UNCONFIGURED_MESSAGE_def)

lemma POST_api_llm_config_status:
  "status (fst (POST_api_llm_config now rnd cookie b ss)) = 400
     \<longleftrightarrow> \<not> (\<exists>p m k. p \<noteq> [] \<and> m \<noteq> [] \<and> k \<noteq> []
             \<and> bodyProvider b = Some (JString p) \<and> bodyModel b = Some (JString m)
             \<and> bodyApiKey b = Some (JString k))"
proof -
  have a: "(truthy f \<and> typeof f = ''string'') = (\<exists>s. s \<noteq> [] \<and> f = Some (JString s))" for f
    by (auto simp: truthy_def typeof_def split: option.splits Json.splits)
  show ?thesis
    using a [of "bodyProvider b"] a [of "bodyModel b"] a [of "bodyApiKey b"]
    by (auto simp: POST_api_llm_config_response errorResponse_def jsonResponse_def)
qed

text \<open>
  C10. POST /api/llm-config with three non-empty strings of which one is whitespace only is
  answered with status 200 and the trimmed provider and model; the session then stores the
  three values trimmed, the whitespace-only one as the empty string. From then on, whenever
  the stored configuration is read, at any later time, the router gives the no-op adapter,
  and a chat turn returns the fixed message and calls no provider over the network. The
  rejection with status 400 fires exactly when the three fields are not all non-empty
  strings: when one is absent, is not a string, or is the empty string.
\<close>

theorem blank_llm_config_accepted:
  assumes "bodyProvider b = Some (JString p)" and "bodyModel b = Some (JString m)"
    and "bodyApiKey b = Some (JString k)"
    and "p \<noteq> []" and "m \<noteq> []" and "k \<noteq> []"
    and "isBlank p \<or> isBlank m \<or> isBlank k"
  shows "(\<exists>sid ss1 out sess stored.
           POST_api_llm_config now rnd cookie b ss =
             (jsonResponse (JObject [(''provider'', JString (trim p)), (''model'', JString (trim m)),
                                     (''configured'', JBool True)]), ss1, out)
         \<and> ss1 sid = Some sess \<and> llmConfig sess = Some stored
         \<and> provider (config stored) = trim p \<and> model (config stored) = trim m
         \<and> apiKey (config stored) = trim k
         \<and> (isBlank p \<longrightarrow> provider (config stored) = [])
         \<and> (isBlank m \<longrightarrow> model (config stored) = [])
         \<and> (isBlank k \<longrightarrow> apiKey (config stored) = [])
         \<and> (\<forall>e rnd'. getProvider (map_option fst (fst (getLlmConfiguration (now + e) rnd' (Some sid) ss1)))
                        = createNoOpProvider)
         \<and> (\<forall>e rnd' net stringify msg logs prev.
               chatWithAI net stringify msg logs prev
                  (map_option fst (fst (getLlmConfiguration (now + e) rnd' (Some sid) ss1)))
                = (UNCONFIGURED_MESSAGE,
                   [ProviderCall createNoOpProvider
                      [\<lparr>role = User, content = chatPrompt stringify msg (take 50 logs) prev\<rparr>]])))
       \<and> (status (fst (POST_api_llm_config clock seed jar req store)) = 400
            \<longleftrightarrow> \<not> (\<exists>p' m' k'. p' \<noteq> [] \<and> m' \<noteq> [] \<and> k' \<noteq> []
                    \<and> bodyProvider req = Some (JString p') \<and> bodyModel req = Some (JString m')
                    \<and> bodyApiKey req = Some (JString k')))"
proof -
  define cfg where "cfg = \<lparr>provider = trim p, model = trim m, apiKey = trim k,
      baseUrl = (if truthy (bodyBaseUrl b) \<and> typeof (bodyBaseUrl b) = ''string''
                 then (if trim (stringValue (bodyBaseUrl b)) \<noteq> []
                       then Some (trim (stringValue (bodyBaseUrl b))) else None)
                 else None)\<rparr>"
  obtain sid ss1 out where s: "setLlmConfiguration now rnd cookie cfg 30 ss = Inr (sid, ss1, out)"
    using setLlmConfiguration_total by blast
  from setLlmConfiguration_result [OF s] obtain sess where
    r: "sid \<noteq> []" "ss1 sid = Some sess" "lastAccessed sess = now"
       "llmConfig sess = Some \<lparr>config = cfg, expiresAt = now + 30 * 60 * 1000\<rparr>"
    by blast
  have post: "POST_api_llm_config now rnd cookie b ss =
             (jsonResponse (JObject [(''provider'', JString (trim p)), (''model'', JString (trim m)),
                                     (''configured'', JBool True)]), ss1, out)"
    using assms(1-6) s
    by (simp add: POST_api_llm_config_def truthy_def typeof_def stringValue_def cfg_def Let_def)
  have blank: "trim (provider cfg) = [] \<or> trim (model cfg) = [] \<or> trim (apiKey cfg) = []"
    using assms(7) by (auto simp: cfg_def dest: trim_trim_blank)
  have noop: "getProvider (Some cfg) = NoOpProvider"
    using blank by (rule getProvider_blank)
  have get: "fst (getLlmConfiguration (now + e) rnd' (Some sid) ss1) =
           (if e \<le> SESSION_TIMEOUT \<and> now + e \<le> now + 30 * 60 * 1000 then Some (cfg, sid) else None)"
    for e rnd'
    using r getLlmConfiguration_after [where ?ss1.0 = ss1 and sid = sid and sess = sess and e = e
                                          and rnd = rnd' and cfg = cfg]
    by auto
  have gp: "getProvider (map_option fst (fst (getLlmConfiguration (now + e) rnd' (Some sid) ss1)))
              = NoOpProvider" for e rnd'
    by (simp add: get noop) (simp add: getProvider_def createNoOpProvider_def)
  have chat: "chatWithAI net stringify msg logs prev
                  (map_option fst (fst (getLlmConfiguration (now + e) rnd' (Some sid) ss1)))
                = (UNCONFIGURED_MESSAGE,
                   [ProviderCall createNoOpProvider
                      [\<lparr>role = User, content = chatPrompt stringify msg (take 50 logs) prev\<rparr>]])"
    for e rnd' net stringify msg logs prev
    using chatWithAI_noop [OF gp] by (simp add: createNoOpProvider_def)
  have fields: "provider (config \<lparr>config = cfg, expiresAt = now + 30 * 60 * 1000\<rparr>) = trim p"
       "model (config \<lparr>config = cfg, expiresAt = now + 30 * 60 * 1000\<rparr>) = trim m"
       "apiKey (config \<lparr>config = cfg, expiresAt = now + 30 * 60 * 1000\<rparr>) = trim k"
    by (simp_all add: cfg_def)
  have empties: "isBlank p \<longrightarrow> trim p = []" "isBlank m \<longrightarrow> trim m = []" "isBlank k \<longrightarrow> trim k = []"
    by (simp_all add: trim_Nil_iff)
  have accepted: "\<exists>sid ss1 out sess stored.
           POST_api_llm_config now rnd cookie b ss =
             (jsonResponse (JObject [(''provider'', JString (trim p)), (''model'', JString (trim m)),
                                     (''configured'', JBool True)]), ss1, out)
         \<and> ss1 sid = Some sess \<and> llmConfig sess = Some stored
         \<and> provider (config stored) = trim p \<and> model (config stored) = trim m
         \<and> apiKey (config stored) = trim k
         \<and> (isBlank p \<longrightarrow> provider (config stored) = [])
         \<and> (isBlank m \<longrightarrow> model (config stored) = [])
         \<and> (isBlank k \<longrightarrow> apiKey (config stored) = [])
         \<and> (\<forall>e rnd'. getProvider (map_option fst (fst (getLlmConfiguration (now + e) rnd' (Some sid) ss1)))
                        = createNoOpProvider)
         \<and> (\<forall>e rnd' net stringify msg logs prev.
               chatWithAI net stringify msg logs prev
                  (map_option fst (fst (getLlmConfiguration (now + e) rnd' (Some sid) ss1)))
                = (UNCONFIGURED_MESSAGE,
                   [ProviderCall createNoOpProvider
                      [\<lparr>role = User, content = chatPrompt stringify msg (take 50 logs) prev\<rparr>]]))"
    apply (rule exI [of _ sid], rule exI [of _ ss1], rule exI [of _ out], rule exI [of _ sess])
    apply (rule exI [of _ "\<lparr>config = cfg, expiresAt = now + 30 * 60 * 1000\<rparr>"])
    using post r fields empties gp chat
    by (simp add: createNoOpProvider_def)
  have rejected: "status (fst (POST_api_llm_config clock seed jar req store)) = 400
            \<longleftrightarrow> \<not> (\<exists>p' m' k'. p' \<noteq> [] \<and> m' \<noteq> [] \<and> k' \<noteq> []
                    \<and> bodyProvider req = Some (JString p') \<and> bodyModel req = Some (JString m')
                    \<and> bodyApiKey req = Some (JString k'))"
    by (simp add: POST_api_llm_config_status)
  show ?thesis
    using accepted rejected by (rule conjI)
qed

theorem blank_llm_config_accepted_witness:
  "bodyProvider blankProviderBody = Some (JString ''  '')
   \<and> bodyModel blankProviderBody = Some (JString ''gpt-4o-mini'')
   \<and> bodyApiKey blankProviderBody = Some (JString ''sk-test'')
   \<and> ''  '' \<noteq> [] \<and> ''gpt-4o-mini'' \<noteq> [] \<and> ''sk-test'' \<noteq> []
   \<and> (isBlank ''  '' \<or> isBlank ''gpt-4o-mini'' \<or> isBlank ''sk-test'')
   \<and> status (fst (POST_api_llm_config 0 [] None blankProviderBody Map.empty)) = 200"
proof -
  have h1: "bodyProvider blankProviderBody = Some (JString ''  '')"
    and h2: "bodyModel blankProviderBody = Some (JString ''gpt-4o-mini'')"
    and h3: "bodyApiKey blankProviderBody = Some (JString ''sk-test'')"
    by (simp_all add: blankProviderBody_def)
  have h4: "''  '' \<noteq> []" and h5: "''gpt-4o-mini'' \<noteq> []" and h6: "''sk-test'' \<noteq> []"
    by simp_all
  have h7: "isBlank ''  '' \<or> isBlank ''gpt-4o-mini'' \<or> isBlank ''sk-test''"
    by (simp add: isBlank_def isWhiteSpace_def)
  from blank_llm_config_accepted
         [OF h1 h2 h3 h4 h5 h6 h7, where now = 0 and rnd = "[]" and cookie = None and ss = Map.empty,
          THEN conjunct1]
  have "status (fst (POST_api_llm_config 0 [] None blankProviderBody Map.empty)) = 200"
    by (auto simp: jsonResponse_def)
  with h1 h2 h3 h4 h5 h6 h7 show ?thesis by blast
qed

text \<open>
  The empty string is a string, and is rejected with status 400: the rejection is not
  limited to a field that is absent or not a string.
\<close>

theorem empty_string_rejected_counterexample:
  "typeof (Some (JString '''')) = ''string''
   \<and> status (fst (POST_api_llm_config 0 [] None
        \<lparr>bodyProvider = Some (JString ''''), bodyModel = Some (JString ''gpt-4o-mini''),
         bodyApiKey = Some (JString ''sk-test''), bodyBaseUrl = None\<rparr> Map.empty)) = 400"
  by (simp add: POST_api_llm_config_def typeof_def truthy_def errorResponse_def)

end
